theory Spec2Isabelle
  imports Main "HOL-Library.Word"
begin

section \<open>Python values used by the two download scripts\<close>

text \<open>
  The repository holds two scripts, \<^verbatim>\<open>Code/get_investments_data.py\<close> (the general
  profile) and \<^verbatim>\<open>Code/get_other_controls.py\<close> (the spreadsheet-only profile). Both
  define functions of the same names; the embedding keeps the names and appends
  \<open>_investments\<close> or \<open>_controls\<close>.

  A Python \<^verbatim>\<open>bytes\<close> object is a list of 8-bit words. A Python \<^verbatim>\<open>str\<close> that holds a
  header value, a label or a file name is a \<open>string\<close>: a HOL character is one code point
  below 256, which is what \<^verbatim>\<open>http.client\<close> produces for a header (it decodes the header
  bytes as ISO-8859-1). The text produced by \<^verbatim>\<open>bytes.decode\<close> is a list of code points
  (natural numbers), since UTF-8 reaches beyond 255.
\<close>

type_synonym byte = "8 word"
type_synonym bytes = "byte list"

definition ascii :: "string \<Rightarrow> bytes" where
  "ascii s = map of_char s"

definition text_of :: "string \<Rightarrow> nat list" where
  "text_of s = map of_char s"

text \<open>\<^verbatim>\<open>a.startswith(p)\<close> and \<^verbatim>\<open>p in a\<close> on sequences (bytes or str).\<close>

fun startswith :: "'a list \<Rightarrow> 'a list \<Rightarrow> bool" where
  "startswith xs [] = True"
| "startswith [] (p # ps) = False"
| "startswith (x # xs) (p # ps) = (x = p \<and> startswith xs ps)"

fun contains :: "'a list \<Rightarrow> 'a list \<Rightarrow> bool" where
  "contains [] needle = (needle = [])"
| "contains (x # xs) needle = (startswith (x # xs) needle \<or> contains xs needle)"

text \<open>
  \<^verbatim>\<open>str.strip()\<close> with no argument removes leading and trailing white space. Below 256
  the white-space code points of CPython are 9 to 13, 28 to 32, 0x85 and 0xA0.
\<close>

definition py_isspace :: "char \<Rightarrow> bool" where
  "py_isspace c =
     (let n = (of_char c :: nat)
      in (9 \<le> n \<and> n \<le> 13) \<or> (28 \<le> n \<and> n \<le> 32) \<or> n = 0x85 \<or> n = 0xA0)"

definition strip_chars :: "(char \<Rightarrow> bool) \<Rightarrow> string \<Rightarrow> string" where
  "strip_chars P s = rev (dropWhile P (rev (dropWhile P s)))"

definition py_strip :: "string \<Rightarrow> string" where
  "py_strip s = strip_chars py_isspace s"

text \<open>
  \<^verbatim>\<open>str.lower()\<close> below 256: the upper-case letters are A to Z and 0xC0 to 0xDE
  without the multiplication sign 0xD7; each lowers to the code point 32 above it.
\<close>

definition py_lower_char :: "char \<Rightarrow> char" where
  "py_lower_char c =
     (let n = (of_char c :: nat)
      in if (65 \<le> n \<and> n \<le> 90) \<or> (192 \<le> n \<and> n \<le> 222 \<and> n \<noteq> 215)
         then char_of (n + 32) else c)"

definition py_lower :: "string \<Rightarrow> string" where
  "py_lower s = map py_lower_char s"

text \<open>\<^verbatim>\<open>s.split(';')[0]\<close>: the part of \<open>s\<close> before its first semicolon.\<close>

definition split_first :: "char \<Rightarrow> string \<Rightarrow> string" where
  "split_first sep s = takeWhile (\<lambda>c. c \<noteq> sep) s"

text \<open>\<^verbatim>\<open>d.get(k, default)\<close> on a dict written as the list of its items.\<close>

definition dict_get :: "('k \<times> 'v) list \<Rightarrow> 'k \<Rightarrow> 'v \<Rightarrow> 'v" where
  "dict_get d k dflt = (case map_of d k of None \<Rightarrow> dflt | Some v \<Rightarrow> v)"

section \<open>The metadata classifier\<close>

definition content_type_map_investments :: "(string \<times> string) list" where
  "content_type_map_investments =
     [(''application/pdf'', ''.pdf''),
      (''application/vnd.ms-excel'', ''.xls''),
      (''application/vnd.openxmlformats-officedocument.spreadsheetml.sheet'', ''.xlsx''),
      (''application/zip'', ''.zip''),
      (''application/x-rar-compressed'', ''.rar''),
      (''application/x-7z-compressed'', ''.7z''),
      (''application/octet-stream'', ''.bin''),
      (''text/csv'', ''.csv''),
      (''application/json'', ''.json''),
      (''text/plain'', ''.txt''),
      (''application/xml'', ''.xml''),
      (''text/xml'', ''.xml'')]"

definition clean_content_type :: "string \<Rightarrow> string" where
  "clean_content_type content_type = py_lower (py_strip (split_first (CHR '';'') content_type))"

definition get_file_extension_from_content_type_investments :: "string \<Rightarrow> string" where
  "get_file_extension_from_content_type_investments content_type =
     dict_get content_type_map_investments (clean_content_type content_type) ''.file''"

definition content_type_map_controls :: "(string \<times> string) list" where
  "content_type_map_controls =
     [(''application/vnd.ms-excel'', ''.xls''),
      (''application/vnd.openxmlformats-officedocument.spreadsheetml.sheet'', ''.xlsx''),
      (''application/octet-stream'', ''.xlsx''),
      (''text/csv'', ''.csv''),
      (''application/json'', ''.json''),
      (''text/plain'', ''.txt''),
      (''application/xml'', ''.xml''),
      (''text/xml'', ''.xml'')]"

definition get_file_extension_from_content_type_controls :: "string \<Rightarrow> string" where
  "get_file_extension_from_content_type_controls content_type =
     dict_get content_type_map_controls (clean_content_type content_type) ''.xlsx''"

section \<open>Decoding for the textual sniffing\<close>

text \<open>
  The exceptions that can arise inside \<^verbatim>\<open>download_file\<close>. All of them are subclasses of
  \<^verbatim>\<open>Exception\<close>; signals outside that class (a keyboard interrupt) arrive asynchronously
  and are not part of the model. A \<^verbatim>\<open>RequestException\<close> and an \<^verbatim>\<open>OSError\<close> carry the text
  that \<^verbatim>\<open>str(e)\<close> gives, which the library or the operating system has composed.
\<close>

datatype py_exception =
    RequestException string
  | UnicodeDecodeError
  | UnicodeEncodeError
  | UnboundLocalError
  | OSError string

text \<open>
  \<^verbatim>\<open>content[:1024].decode('utf-8', errors='ignore')\<close>. The decoder is CPython's. At each
  position it either decodes one code point from 1 to 4 bytes, or reports an invalid
  sequence of 1 to 3 bytes, or reports that the data ends inside a sequence. With
  \<^verbatim>\<open>errors='strict'\<close> a report raises \<^verbatim>\<open>UnicodeDecodeError\<close>; with \<^verbatim>\<open>errors='ignore'\<close>
  the reported bytes are skipped and decoding goes on behind them.
\<close>

datatype errors = Strict | Ignore

datatype scan_result = Decoded nat nat | Invalid nat | Truncated

definition is_continuation :: "byte \<Rightarrow> bool" where
  "is_continuation b = (0x80 \<le> b \<and> b < 0xC0)"

fun utf8_scan :: "bytes \<Rightarrow> scan_result" where
  "utf8_scan [] = Truncated"
| "utf8_scan (ch # rest) =
     (if ch < 0x80 then Decoded (unat ch) 1
      else if ch < 0xC2 then Invalid 1
      else if ch < 0xE0 then
        (case rest of
           [] \<Rightarrow> Truncated
         | ch2 # _ \<Rightarrow>
             if \<not> is_continuation ch2 then Invalid 1
             else Decoded ((unat ch - 0xC0) * 64 + (unat ch2 - 0x80)) 2)
      else if ch < 0xF0 then
        (case rest of
           [] \<Rightarrow> Truncated
         | ch2 # rest2 \<Rightarrow>
             if \<not> is_continuation ch2 \<or> (if ch2 < 0xA0 then ch = 0xE0 else ch = 0xED)
             then Invalid 1
             else (case rest2 of
                     [] \<Rightarrow> Truncated
                   | ch3 # _ \<Rightarrow>
                       if \<not> is_continuation ch3 then Invalid 2
                       else Decoded ((unat ch - 0xE0) * 4096 + (unat ch2 - 0x80) * 64
                                     + (unat ch3 - 0x80)) 3))
      else if ch < 0xF5 then
        (case rest of
           [] \<Rightarrow> Truncated
         | ch2 # rest2 \<Rightarrow>
             if \<not> is_continuation ch2 \<or> (if ch2 < 0x90 then ch = 0xF0 else ch = 0xF4)
             then Invalid 1
             else (case rest2 of
                     [] \<Rightarrow> Truncated
                   | ch3 # rest3 \<Rightarrow>
                       if \<not> is_continuation ch3 then Invalid 2
                       else (case rest3 of
                               [] \<Rightarrow> Truncated
                             | ch4 # _ \<Rightarrow>
                                 if \<not> is_continuation ch4 then Invalid 3
                                 else Decoded ((unat ch - 0xF0) * 262144
                                               + (unat ch2 - 0x80) * 4096
                                               + (unat ch3 - 0x80) * 64
                                               + (unat ch4 - 0x80)) 4)))
      else Invalid 1)"

function utf8_decode :: "errors \<Rightarrow> bytes \<Rightarrow> py_exception + nat list" where
  "utf8_decode errs bs =
     (if bs = [] then Inr []
      else case utf8_scan bs of
             Decoded cp n \<Rightarrow>
               (case utf8_decode errs (drop n bs) of
                  Inl e \<Rightarrow> Inl e
                | Inr t \<Rightarrow> Inr (cp # t))
           | Invalid n \<Rightarrow>
               (case errs of
                  Strict \<Rightarrow> Inl UnicodeDecodeError
                | Ignore \<Rightarrow> utf8_decode errs (drop n bs))
           | Truncated \<Rightarrow>
               (case errs of
                  Strict \<Rightarrow> Inl UnicodeDecodeError
                | Ignore \<Rightarrow> Inr []))"
  by pat_completeness auto
termination
proof (relation "measure (\<lambda>(errs, bs). length bs)")
  show "wf (measure (\<lambda>(errs :: errors, bs :: bytes). length bs))"
    by simp
next
  fix errs :: errors and bs :: bytes and cp n :: nat
  assume "bs \<noteq> []" and "utf8_scan bs = Decoded cp n"
  then have "0 < n"
    by (cases bs) (auto split: if_splits list.splits)
  with \<open>bs \<noteq> []\<close> show "((errs, drop n bs), (errs, bs)) \<in> measure (\<lambda>(errs, bs). length bs)"
    by simp
next
  fix errs :: errors and bs :: bytes and n :: nat
  assume "bs \<noteq> []" and "utf8_scan bs = Invalid n"
  then have "0 < n"
    by (cases bs) (auto split: if_splits list.splits)
  with \<open>bs \<noteq> []\<close> show "((errs, drop n bs), (errs, bs)) \<in> measure (\<lambda>(errs, bs). length bs)"
    by simp
qed

text \<open>
  \<^verbatim>\<open>.lower()\<close> on the decoded text. Only the letters A to Z are lowered here. Python also
  lowers cased letters beyond ASCII, but none of them lowers to text that begins with or
  contains one of the characters the sniffing tests for (\<open><\<close>, \<open>?\<close>, \<open>x\<close>, \<open>m\<close>, \<open>l\<close>,
  \<open>{\<close>, \<open>[\<close>, the comma and the line feed), so the three tests below give the same answers.
\<close>

definition text_lower :: "nat list \<Rightarrow> nat list" where
  "text_lower t = map (\<lambda>n. if 65 \<le> n \<and> n \<le> 90 then n + 32 else n) t"

section \<open>The signature classifier\<close>

text \<open>
  A dict literal is evaluated item by item: a key that is already present keeps its
  place and takes the new value. \<^verbatim>\<open>magic_numbers\<close> of the general profile lists the key
  \<^verbatim>\<open>b'\x50\x4B\x03\x04'\<close> twice.
\<close>

fun dict_set :: "('k \<times> 'v) list \<Rightarrow> 'k \<Rightarrow> 'v \<Rightarrow> ('k \<times> 'v) list" where
  "dict_set [] k v = [(k, v)]"
| "dict_set ((k', v') # d) k v = (if k' = k then (k, v) # d else (k', v') # dict_set d k v)"

definition dict_literal :: "('k \<times> 'v) list \<Rightarrow> ('k \<times> 'v) list" where
  "dict_literal items = foldl (\<lambda>d (k, v). dict_set d k v) [] items"

definition magic_numbers_investments :: "(bytes \<times> string) list" where
  "magic_numbers_investments = dict_literal
     [([0x50, 0x4B, 0x03, 0x04], ''.zip''),
      ([0x50, 0x4B, 0x05, 0x06], ''.zip''),
      ([0x50, 0x4B, 0x07, 0x08], ''.zip''),
      ([0x52, 0x61, 0x72, 0x21], ''.rar''),
      ([0x37, 0x7A, 0xBC, 0xAF, 0x27, 0x1C], ''.7z''),
      ([0x25, 0x50, 0x44, 0x46], ''.pdf''),
      ([0xD0, 0xCF, 0x11, 0xE0, 0xA1, 0xB1, 0x1A, 0xE1], ''.xls''),
      ([0x50, 0x4B, 0x03, 0x04], ''.xlsx''),
      ([0x1F, 0x8B], ''.gz''),
      ([0x42, 0x5A, 0x68], ''.bz2'')]"

text \<open>The loop \<^verbatim>\<open>for magic, ext in magic_numbers.items()\<close>; \<open>None\<close> when it falls through.\<close>

fun match_magic_investments :: "(bytes \<times> string) list \<Rightarrow> bytes \<Rightarrow> string option" where
  "match_magic_investments [] content = None"
| "match_magic_investments ((magic, ext) # items) content =
     (if startswith content magic then
        (if magic = [0x50, 0x4B, 0x03, 0x04] then
           (if contains (take 1024 content) (ascii ''xl/'')
               \<or> contains (take 1024 content) (ascii ''[Content_Types].xml'')
            then Some ''.xlsx''
            else if contains (take 1024 content) (ascii ''word/'') then Some ''.docx''
            else Some ''.zip'')
         else Some ext)
      else match_magic_investments items content)"

definition detect_file_type_from_content_investments :: "bytes \<Rightarrow> py_exception + string" where
  "detect_file_type_from_content_investments content =
     (if content = [] then Inr ''.file''
      else case match_magic_investments magic_numbers_investments content of
             Some ext \<Rightarrow> Inr ext
           | None \<Rightarrow>
               (case utf8_decode Ignore (take 1024 content) of
                  Inl e \<Rightarrow> Inl e
                | Inr decoded \<Rightarrow>
                    (let content_str = text_lower decoded
                     in if startswith content_str (text_of ''<?xml'') then Inr ''.xml''
                        else if startswith content_str (text_of ''{'')
                                \<or> startswith content_str (text_of ''['') then Inr ''.json''
                        else if contains content_str (text_of '','') \<and> contains content_str [10]
                        then Inr ''.csv''
                        else Inr ''.file'')))"

definition magic_numbers_controls :: "(bytes \<times> string) list" where
  "magic_numbers_controls = dict_literal
     [([0xD0, 0xCF, 0x11, 0xE0, 0xA1, 0xB1, 0x1A, 0xE1], ''.xls''),
      ([0x50, 0x4B, 0x03, 0x04], ''.xlsx''),
      ([0x50, 0x4B, 0x05, 0x06], ''.xlsx''),
      ([0x50, 0x4B, 0x07, 0x08], ''.xlsx'')]"

fun match_magic_controls :: "(bytes \<times> string) list \<Rightarrow> bytes \<Rightarrow> string option" where
  "match_magic_controls [] content = None"
| "match_magic_controls ((magic, ext) # items) content =
     (if startswith content magic then
        (if startswith magic [0x50, 0x4B]
            \<and> (contains (take 1024 content) (ascii ''xl/'')
                \<or> contains (take 1024 content) (ascii ''[Content_Types].xml''))
         then Some ''.xlsx''
         else Some ext)
      else match_magic_controls items content)"

definition detect_file_type_from_content_controls :: "bytes \<Rightarrow> string" where
  "detect_file_type_from_content_controls content =
     (if content = [] then ''.xlsx''
      else case match_magic_controls magic_numbers_controls content of
             Some ext \<Rightarrow> ext
           | None \<Rightarrow> ''.xlsx'')"

section \<open>The filename sanitizer\<close>

text \<open>
  \<^verbatim>\<open>invalid_chars = '<>:"/\\|?*'\<close>: the double quote is code point 0x22, the backslash
  0x5C. \<^verbatim>\<open>filename.replace(char, '_')\<close> replaces every occurrence of a one-character
  string; \<^verbatim>\<open>filename.strip('. ')\<close> removes leading and trailing dots and spaces.
\<close>

definition invalid_chars :: string where
  "invalid_chars =
     [CHR ''<'', CHR ''>'', CHR '':'', CHR 0x22, CHR ''/'', CHR 0x5C, CHR ''|'', CHR ''?'', CHR ''*'']"

definition replace_char :: "char \<Rightarrow> char \<Rightarrow> string \<Rightarrow> string" where
  "replace_char old new s = map (\<lambda>c. if c = old then new else c) s"

definition sanitize_filename :: "string \<Rightarrow> string" where
  "sanitize_filename filename =
     (let filename1 = foldl (\<lambda>name char. replace_char char (CHR ''_'') name) filename invalid_chars;
          filename2 = strip_chars (\<lambda>c. c \<in> set ''. '') filename1
      in if length filename2 > 200 then take 200 filename2 else filename2)"

section \<open>The download pipeline\<close>

text \<open>
  What the outside world does during one call.

  \<open>http url\<close> is the HTTP exchange. \<open>Refused text\<close>: \<^verbatim>\<open>requests.get\<close> raises a
  \<^verbatim>\<open>RequestException\<close> (timeout, connection error) whose \<^verbatim>\<open>str\<close> is \<open>text\<close>.
  \<open>Response status error_text header chunks ending\<close>: a response arrives with that
  status code; \<open>error_text\<close> is the \<^verbatim>\<open>str\<close> of the \<^verbatim>\<open>HTTPError\<close> that
  \<^verbatim>\<open>raise_for_status\<close> builds for it, which it raises exactly when the status is 400 to
  599; \<open>header\<close> is the \<^verbatim>\<open>content-type\<close> header, if any; \<open>chunks\<close> are what
  \<^verbatim>\<open>iter_content\<close> delivers; the iteration then ends normally or breaks with a
  \<^verbatim>\<open>RequestException\<close> of the given text.

  \<open>open_error name\<close> is the \<^verbatim>\<open>str\<close> of the \<^verbatim>\<open>OSError\<close> that \<^verbatim>\<open>open(name, 'wb')\<close>
  raises, or \<open>None\<close> when the file opens. \<open>disk_space\<close> is the number of bytes the
  opened file accepts before a write raises. \<open>stdout_encodes\<close> says which characters
  beyond ASCII the encoding of standard output can encode; ASCII text always prints.
\<close>

datatype stream_end = Exhausted | Broken string

datatype http_exchange = Refused string | Response nat string "string option" "bytes list" stream_end

record world =
  http :: "string \<Rightarrow> http_exchange"
  open_error :: "string \<Rightarrow> string option"
  disk_space :: nat
  stdout_encodes :: "char \<Rightarrow> bool"

type_synonym filesystem = "string \<rightharpoonup> bytes"

type_synonym outcome = "bool \<times> string option"

text \<open>
  \<^verbatim>\<open>print(text)\<close> raises \<^verbatim>\<open>UnicodeEncodeError\<close> when standard output cannot encode a
  character of \<open>text\<close>.
\<close>

definition print_ok :: "world \<Rightarrow> string \<Rightarrow> bool" where
  "print_ok w text = list_all (\<lambda>c. (of_char c :: nat) < 128 \<or> stdout_encodes w c) text"

definition py_print :: "world \<Rightarrow> string \<Rightarrow> py_exception + unit" where
  "py_print w text = (if print_ok w text then Inr () else Inl UnicodeEncodeError)"

text \<open>
  \<^verbatim>\<open>str(e)\<close>. The texts of the three built-in errors name the variable, the codec or the
  offending byte and differ between Python versions, but they are ASCII in every case
  (a character that cannot be encoded is shown escaped); the model fixes one wording.
\<close>

definition str_exception :: "py_exception \<Rightarrow> string" where
  "str_exception e =
     (case e of
        RequestException text \<Rightarrow> text
      | OSError text \<Rightarrow> text
      | UnboundLocalError \<Rightarrow>
          ''cannot access local variable '' @ [CHR 0x27] @ ''extension_from_content''
            @ [CHR 0x27] @ '' where it is not associated with a value''
      | UnicodeEncodeError \<Rightarrow> ''codec can't encode character: ordinal not in range''
      | UnicodeDecodeError \<Rightarrow> ''codec can't decode byte: invalid start byte'')"

text \<open>
  The loop over \<^verbatim>\<open>response.iter_content\<close>. Its state is \<^verbatim>\<open>content_chunks\<close>,
  \<^verbatim>\<open>first_chunk\<close> and \<^verbatim>\<open>extension_from_content\<close>; the last is \<open>None\<close> while the variable
  is unbound.
\<close>

type_synonym loop_state = "bytes list \<times> bytes option \<times> string option"

fun read_chunks_investments :: "bytes list \<Rightarrow> loop_state \<Rightarrow> py_exception + loop_state" where
  "read_chunks_investments [] st = Inr st"
| "read_chunks_investments (chunk # later) (content_chunks, first_chunk, extension_from_content) =
     (if first_chunk = None then
        (case detect_file_type_from_content_investments chunk of
           Inl e \<Rightarrow> Inl e
         | Inr ext \<Rightarrow> read_chunks_investments later (content_chunks @ [chunk], Some chunk, Some ext))
      else read_chunks_investments later (content_chunks @ [chunk], first_chunk, extension_from_content))"

fun read_chunks_controls :: "bytes list \<Rightarrow> loop_state \<Rightarrow> loop_state" where
  "read_chunks_controls [] st = st"
| "read_chunks_controls (chunk # later) (content_chunks, first_chunk, extension_from_content) =
     (if first_chunk = None then
        read_chunks_controls later
          (content_chunks @ [chunk], Some chunk, Some (detect_file_type_from_content_controls chunk))
      else read_chunks_controls later (content_chunks @ [chunk], first_chunk, extension_from_content))"

text \<open>
  The step "Decide on the best extension" of each script: \<^verbatim>\<open>final_extension\<close> and
  \<^verbatim>\<open>detection_method\<close>, set by the same chain of tests.
\<close>

definition decide_extension_investments :: "string \<Rightarrow> string \<Rightarrow> string" where
  "decide_extension_investments extension_from_content extension_from_header =
     (if extension_from_content \<noteq> ''.file'' then extension_from_content
      else if extension_from_header \<noteq> ''.file'' then extension_from_header
      else ''.file'')"

definition detection_method_investments :: "string \<Rightarrow> string \<Rightarrow> string" where
  "detection_method_investments extension_from_content extension_from_header =
     (if extension_from_content \<noteq> ''.file'' then ''content analysis''
      else if extension_from_header \<noteq> ''.file'' then ''HTTP header''
      else ''default'')"

definition decide_extension_controls :: "string \<Rightarrow> string \<Rightarrow> string" where
  "decide_extension_controls extension_from_content extension_from_header =
     (if extension_from_content \<in> set [''.xls'', ''.xlsx''] then extension_from_content
      else if extension_from_header \<in> set [''.xls'', ''.xlsx''] then extension_from_header
      else ''.xlsx'')"

definition detection_method_controls :: "string \<Rightarrow> string \<Rightarrow> string" where
  "detection_method_controls extension_from_content extension_from_header =
     (if extension_from_content \<in> set [''.xls'', ''.xlsx''] then ''content analysis''
      else if extension_from_header \<in> set [''.xls'', ''.xlsx''] then ''HTTP header''
      else ''default'')"

text \<open>
  The loop \<^verbatim>\<open>for chunk in content_chunks: file.write(chunk)\<close> on the opened (and thereby
  emptied) file: the file's content afterwards, and whether every write went through.
\<close>

fun write_chunks :: "nat \<Rightarrow> bytes \<Rightarrow> bytes list \<Rightarrow> bytes \<times> bool" where
  "write_chunks space file [] = (file, True)"
| "write_chunks space file (chunk # later) =
     (if length chunk \<le> space then write_chunks (space - length chunk) (file @ chunk) later
      else (file @ take space chunk, False))"

definition save_file :: "world \<Rightarrow> string \<Rightarrow> bytes list \<Rightarrow> filesystem \<Rightarrow> (py_exception + unit) \<times> filesystem" where
  "save_file w final_filename content_chunks fs =
     (case open_error w final_filename of
        Some text \<Rightarrow> (Inl (OSError text), fs)
      | None \<Rightarrow>
          (case write_chunks (disk_space w) [] content_chunks of
             (file, True) \<Rightarrow> (Inr (), fs(final_filename \<mapsto> file))
           | (file, False) \<Rightarrow>
               (Inl (OSError ''[Errno 28] No space left on device''), fs(final_filename \<mapsto> file))))"

text \<open>
  The end of the \<^verbatim>\<open>try\<close> block, the same in both scripts: save the file, print the three
  lines of the report, return the final filename.
\<close>

definition finish_download ::
  "world \<Rightarrow> string \<Rightarrow> string \<Rightarrow> string \<Rightarrow> string \<Rightarrow> bytes list \<Rightarrow> filesystem
     \<Rightarrow> (py_exception + string) \<times> filesystem" where
  "finish_download w final_filename detection_method final_extension content_type content_chunks fs =
     (case save_file w final_filename content_chunks fs of
        (Inl e, fs') \<Rightarrow> (Inl e, fs')
      | (Inr _, fs') \<Rightarrow>
          (case py_print w (''Successfully downloaded: '' @ final_filename) of
             Inl e \<Rightarrow> (Inl e, fs')
           | Inr _ \<Rightarrow>
               (case py_print w (''File type detected via '' @ detection_method @ '': ''
                                  @ final_extension) of
                  Inl e \<Rightarrow> (Inl e, fs')
                | Inr _ \<Rightarrow>
                    (case py_print w (''Content-Type header: '' @ content_type) of
                       Inl e \<Rightarrow> (Inl e, fs')
                     | Inr _ \<Rightarrow> (Inr final_filename, fs')))))"

text \<open>Whether the three lines of the report can be printed.\<close>

definition report_ok :: "world \<Rightarrow> string \<Rightarrow> string \<Rightarrow> string \<Rightarrow> string \<Rightarrow> bool" where
  "report_ok w final_filename detection_method final_extension content_type =
     (print_ok w (''Successfully downloaded: '' @ final_filename)
      \<and> print_ok w (''File type detected via '' @ detection_method @ '': '' @ final_extension)
      \<and> print_ok w (''Content-Type header: '' @ content_type))"

text \<open>The body of the \<^verbatim>\<open>try\<close> block: the exception raised or the final filename.\<close>

definition try_download_investments ::
  "world \<Rightarrow> string \<Rightarrow> string \<Rightarrow> filesystem \<Rightarrow> (py_exception + string) \<times> filesystem" where
  "try_download_investments w url base_filename fs =
     (case py_print w (''Downloading from: '' @ url) of
        Inl e \<Rightarrow> (Inl e, fs)
      | Inr _ \<Rightarrow>
          (case http w url of
             Refused text \<Rightarrow> (Inl (RequestException text), fs)
           | Response status error_text header chunks ending \<Rightarrow>
               if 400 \<le> status \<and> status < 600 then (Inl (RequestException error_text), fs)
               else
                 (let content_type = (case header of None \<Rightarrow> [] | Some v \<Rightarrow> v);
                      extension_from_header =
                        get_file_extension_from_content_type_investments content_type
                  in case read_chunks_investments chunks ([], None, None) of
                       Inl e \<Rightarrow> (Inl e, fs)
                     | Inr (content_chunks, first_chunk, extension_from_content) \<Rightarrow>
                         (case ending of
                            Broken text \<Rightarrow> (Inl (RequestException text), fs)
                          | Exhausted \<Rightarrow>
                              (case extension_from_content of
                                 None \<Rightarrow> (Inl UnboundLocalError, fs)
                               | Some ext \<Rightarrow>
                                   finish_download w
                                     (base_filename
                                        @ decide_extension_investments ext extension_from_header)
                                     (detection_method_investments ext extension_from_header)
                                     (decide_extension_investments ext extension_from_header)
                                     content_type content_chunks fs)))))"

definition try_download_controls ::
  "world \<Rightarrow> string \<Rightarrow> string \<Rightarrow> filesystem \<Rightarrow> (py_exception + string) \<times> filesystem" where
  "try_download_controls w url base_filename fs =
     (case py_print w (''Downloading from: '' @ url) of
        Inl e \<Rightarrow> (Inl e, fs)
      | Inr _ \<Rightarrow>
          (case http w url of
             Refused text \<Rightarrow> (Inl (RequestException text), fs)
           | Response status error_text header chunks ending \<Rightarrow>
               if 400 \<le> status \<and> status < 600 then (Inl (RequestException error_text), fs)
               else
                 (let content_type = (case header of None \<Rightarrow> [] | Some v \<Rightarrow> v);
                      extension_from_header =
                        get_file_extension_from_content_type_controls content_type
                  in case read_chunks_controls chunks ([], None, None) of
                       (content_chunks, first_chunk, extension_from_content) \<Rightarrow>
                         (case ending of
                            Broken text \<Rightarrow> (Inl (RequestException text), fs)
                          | Exhausted \<Rightarrow>
                              (case extension_from_content of
                                 None \<Rightarrow> (Inl UnboundLocalError, fs)
                               | Some ext \<Rightarrow>
                                   finish_download w
                                     (base_filename
                                        @ decide_extension_controls ext extension_from_header)
                                     (detection_method_controls ext extension_from_header)
                                     (decide_extension_controls ext extension_from_header)
                                     content_type content_chunks fs)))))"

text \<open>
  The two handlers, \<^verbatim>\<open>except requests.exceptions.RequestException\<close> and then
  \<^verbatim>\<open>except Exception\<close>. Each prints a line and returns \<^verbatim>\<open>(False, None)\<close>; an exception
  raised by that \<^verbatim>\<open>print\<close> is caught by nothing and leaves \<^verbatim>\<open>download_file\<close>.
\<close>

definition handler_message :: "string \<Rightarrow> py_exception \<Rightarrow> string" where
  "handler_message url e =
     (case e of
        RequestException text \<Rightarrow> ''Error downloading '' @ url @ '': '' @ str_exception e
      | _ \<Rightarrow> ''Unexpected error: '' @ str_exception e)"

definition handle_exception :: "world \<Rightarrow> string \<Rightarrow> py_exception \<Rightarrow> py_exception + outcome" where
  "handle_exception w url e =
     (case py_print w (handler_message url e) of
        Inl e' \<Rightarrow> Inl e'
      | Inr _ \<Rightarrow> Inr (False, None))"

text \<open>
  \<^verbatim>\<open>download_file\<close>: \<open>Inr\<close> the tuple it returns, \<open>Inl\<close> the exception that leaves it,
  together with the filesystem afterwards.
\<close>

definition download_file_investments ::
  "world \<Rightarrow> string \<Rightarrow> string \<Rightarrow> filesystem \<Rightarrow> (py_exception + outcome) \<times> filesystem" where
  "download_file_investments w url base_filename fs =
     (case try_download_investments w url base_filename fs of
        (Inr final_filename, fs') \<Rightarrow> (Inr (True, Some final_filename), fs')
      | (Inl e, fs') \<Rightarrow> (handle_exception w url e, fs'))"

definition download_file_controls ::
  "world \<Rightarrow> string \<Rightarrow> string \<Rightarrow> filesystem \<Rightarrow> (py_exception + outcome) \<times> filesystem" where
  "download_file_controls w url base_filename fs =
     (case try_download_controls w url base_filename fs of
        (Inr final_filename, fs') \<Rightarrow> (Inr (True, Some final_filename), fs')
      | (Inl e, fs') \<Rightarrow> (handle_exception w url e, fs'))"

text \<open>
  Worlds for concrete runs. \<open>serving x space\<close>: every url gets the exchange \<open>x\<close>, every
  file opens, the disk takes \<open>space\<close> bytes, standard output encodes every character.
  \<open>read_only x\<close>: no file opens. \<open>ascii_console w\<close>: the world \<open>w\<close> with a standard output
  that encodes ASCII only.
\<close>

definition serving :: "http_exchange \<Rightarrow> nat \<Rightarrow> world" where
  "serving x space =
     \<lparr>http = (\<lambda>url. x), open_error = (\<lambda>name. None), disk_space = space,
      stdout_encodes = (\<lambda>c. True)\<rparr>"



section \<open>Properties of the metadata classifier\<close>

lemma of_char_lower: "(of_char (py_lower_char c) :: nat) =
   (let n = of_char c in if (65 \<le> n \<and> n \<le> 90) \<or> (192 \<le> n \<and> n \<le> 222 \<and> n \<noteq> 215) then n + 32 else n)"
  by (simp add: py_lower_char_def Let_def)

lemma lower_semicolon: "(py_lower_char c \<noteq> CHR '';'') = (c \<noteq> CHR '';'')"
proof -
  have "py_lower_char c = CHR '';'' \<longleftrightarrow> (of_char (py_lower_char c) :: nat) = of_char (CHR '';'')"
    by (metis char_of_char)
  also have "\<dots> \<longleftrightarrow> (of_char c :: nat) = of_char (CHR '';'')"
    by (auto simp: of_char_lower Let_def)
  also have "\<dots> \<longleftrightarrow> c = CHR '';''"
    by (metis char_of_char)
  finally show ?thesis by simp
qed

lemma lower_isspace: "py_isspace (py_lower_char c) = py_isspace c"
  unfolding py_isspace_def of_char_lower by (auto simp: Let_def)

lemma isspace_not_semicolon: "py_isspace c \<Longrightarrow> c \<noteq> CHR '';''"
  by (auto simp: py_isspace_def)

lemma split_first_idem: "split_first sep (split_first sep s) = split_first sep s"
  by (simp add: split_first_def)

lemma lower_split_first:
  "py_lower (split_first (CHR '';'') s) = split_first (CHR '';'') (py_lower s)"
  by (simp add: py_lower_def split_first_def takeWhile_map comp_def lower_semicolon)

lemma lower_strip: "py_lower (py_strip s) = py_strip (py_lower s)"
proof -
  have dw: "dropWhile py_isspace (map py_lower_char xs) = map py_lower_char (dropWhile py_isspace xs)"
    for xs
    by (simp add: dropWhile_map comp_def lower_isspace)
  show ?thesis
    by (simp add: py_lower_def py_strip_def strip_chars_def dw rev_map)
qed

lemma clean_by_lower:
  "clean_content_type s = py_strip (split_first (CHR '';'') (py_lower s))"
  by (simp add: clean_content_type_def lower_strip lower_split_first)

lemma strip_surrounding:
  assumes "\<forall>c\<in>set pre. P c" and "\<forall>c\<in>set post. P c"
  shows "strip_chars P (pre @ s @ post) = strip_chars P s"
proof -
  have "dropWhile P (rev (dropWhile P (pre @ s @ post))) = dropWhile P (rev (dropWhile P s))"
  proof (cases "\<forall>c\<in>set s. P c")
    case True
    with assms have e: "dropWhile P post = []" "dropWhile P s = []"
      by simp_all
    from assms True have "dropWhile P (pre @ s @ post) = dropWhile P post"
      by (simp add: dropWhile_append)
    then show ?thesis by (simp only: e)
  next
    case False
    with assms show ?thesis by (auto simp add: dropWhile_append)
  qed
  then show ?thesis by (simp add: strip_chars_def)
qed

lemma split_first_surrounding:
  assumes "\<forall>c\<in>set pre. c \<noteq> sep" and "\<forall>c\<in>set post. c \<noteq> sep"
  shows "\<exists>post'. split_first sep (pre @ s @ post) = pre @ split_first sep s @ post'
                \<and> set post' \<subseteq> set post"
proof (cases "\<forall>c\<in>set s. c \<noteq> sep")
  case True
  with assms have e: "takeWhile (\<lambda>c. c \<noteq> sep) post = post" "takeWhile (\<lambda>c. c \<noteq> sep) s = s"
    by simp_all
  from assms True have "takeWhile (\<lambda>c. c \<noteq> sep) (pre @ s @ post) = pre @ s @ takeWhile (\<lambda>c. c \<noteq> sep) post"
    by (simp add: takeWhile_append)
  then have "split_first sep (pre @ s @ post) = pre @ split_first sep s @ post"
    by (simp only: split_first_def e)
  then show ?thesis by blast
next
  case False
  with assms have "split_first sep (pre @ s @ post) = pre @ split_first sep s @ []"
    by (auto simp add: split_first_def takeWhile_append)
  then show ?thesis by (metis empty_set empty_subsetI)
qed

lemma clean_surrounding:
  assumes "\<forall>c\<in>set pre. py_isspace c" and "\<forall>c\<in>set post. py_isspace c"
  shows "clean_content_type (pre @ s @ post) = clean_content_type s"
proof -
  from assms obtain post' where
    eq: "split_first (CHR '';'') (pre @ s @ post) = pre @ split_first (CHR '';'') s @ post'"
    and sub: "set post' \<subseteq> set post"
    using split_first_surrounding [of pre "CHR '';''" post s] isspace_not_semicolon by blast
  from sub assms have "\<forall>c\<in>set post'. py_isspace c" by blast
  with assms show ?thesis
    by (simp add: clean_content_type_def eq py_strip_def strip_surrounding)
qed

text \<open>
  Claim C7. For every content-type header string, each metadata classifier returns the
  label it returns for the string cut at its first semicolon; in particular
  \<open>text/csv; charset=utf-8\<close> is classified as \<open>text/csv\<close> is. Matching is
  whitespace-trimmed (white space around the header does not change the label) and
  case-insensitive (two headers with the same lower-case form get the same label).
\<close>

theorem content_type_parameters_ignored:
  "get_file_extension_from_content_type_investments s
     = get_file_extension_from_content_type_investments (split_first (CHR '';'') s)
   \<and> get_file_extension_from_content_type_controls s
     = get_file_extension_from_content_type_controls (split_first (CHR '';'') s)
   \<and> get_file_extension_from_content_type_investments ''text/csv; charset=utf-8''
     = get_file_extension_from_content_type_investments ''text/csv''
   \<and> get_file_extension_from_content_type_controls ''text/csv; charset=utf-8''
     = get_file_extension_from_content_type_controls ''text/csv''
   \<and> ((\<forall>c\<in>set pre \<union> set post. py_isspace c) \<longrightarrow>
        get_file_extension_from_content_type_investments (pre @ s @ post)
          = get_file_extension_from_content_type_investments s
        \<and> get_file_extension_from_content_type_controls (pre @ s @ post)
          = get_file_extension_from_content_type_controls s)
   \<and> (py_lower s = py_lower t \<longrightarrow>
        get_file_extension_from_content_type_investments s
          = get_file_extension_from_content_type_investments t
        \<and> get_file_extension_from_content_type_controls s
          = get_file_extension_from_content_type_controls t)"
proof -
  have split: "clean_content_type (split_first (CHR '';'') s) = clean_content_type s"
    by (simp add: clean_content_type_def split_first_idem)
  have csv: "clean_content_type ''text/csv; charset=utf-8'' = clean_content_type ''text/csv''"
    using split_first_idem [of "CHR '';''" "''text/csv; charset=utf-8''"]
    by (simp add: clean_content_type_def split_first_def)
  have ws: "(\<forall>c\<in>set pre \<union> set post. py_isspace c) \<longrightarrow>
              clean_content_type (pre @ s @ post) = clean_content_type s"
    using clean_surrounding [of pre post s] by blast
  have lc: "py_lower s = py_lower t \<longrightarrow> clean_content_type s = clean_content_type t"
    by (simp add: clean_by_lower)
  show ?thesis
    unfolding get_file_extension_from_content_type_investments_def
      get_file_extension_from_content_type_controls_def
    using split csv ws lc by simp
qed

theorem content_type_parameters_ignored_witness:
  "py_isspace (CHR '' '') \<and> py_isspace (CHR 0x09)
   \<and> py_lower ''Text/CSV; q=1'' = py_lower ''text/csv; Q=1''
   \<and> get_file_extension_from_content_type_investments ('' '' @ ''Text/CSV; q=1'' @ [CHR 0x09]) = ''.csv''
   \<and> get_file_extension_from_content_type_controls ('' '' @ ''Text/CSV; q=1'' @ [CHR 0x09]) = ''.csv''
   \<and> get_file_extension_from_content_type_investments ''Text/CSV; q=1'' = ''.csv''
   \<and> get_file_extension_from_content_type_controls ''Text/CSV; q=1'' = ''.csv''"
proof -
  have ws: "\<forall>c\<in>set '' '' \<union> set [CHR 0x09]. py_isspace c"
    by (simp add: py_isspace_def)
  have lc: "py_lower ''Text/CSV; q=1'' = py_lower ''text/csv; Q=1''"
    by code_simp
  have v: "get_file_extension_from_content_type_investments ''text/csv; Q=1'' = ''.csv''"
    "get_file_extension_from_content_type_controls ''text/csv; Q=1'' = ''.csv''"
    by code_simp+
  note inst = content_type_parameters_ignored
      [of "''Text/CSV; q=1''" "'' ''" "[CHR 0x09]" "''text/csv; Q=1''"]
  from inst ws have a:
    "get_file_extension_from_content_type_investments ('' '' @ ''Text/CSV; q=1'' @ [CHR 0x09])
       = get_file_extension_from_content_type_investments ''Text/CSV; q=1''"
    "get_file_extension_from_content_type_controls ('' '' @ ''Text/CSV; q=1'' @ [CHR 0x09])
       = get_file_extension_from_content_type_controls ''Text/CSV; q=1''"
    by blast+
  from inst lc have b:
    "get_file_extension_from_content_type_investments ''Text/CSV; q=1''
       = get_file_extension_from_content_type_investments ''text/csv; Q=1''"
    "get_file_extension_from_content_type_controls ''Text/CSV; q=1''
       = get_file_extension_from_content_type_controls ''text/csv; Q=1''"
    by blast+
  show ?thesis
    using ws lc a b v by simp
qed

section \<open>Properties of the signature classifier\<close>

declare utf8_decode.simps [simp del]

lemma utf8_decode_ignore_total: "errs = Ignore \<Longrightarrow> \<exists>t. utf8_decode errs bs = Inr t"
proof (induction errs bs rule: utf8_decode.induct)
  case (1 errs bs)
  show ?case
  proof (cases "bs = []")
    case True
    then show ?thesis by (subst utf8_decode.simps) simp
  next
    case False
    show ?thesis
    proof (cases "utf8_scan bs")
      case (Decoded cp n)
      with False "1.IH"(1) "1.prems" obtain t where "utf8_decode errs (drop n bs) = Inr t"
        by blast
      with False Decoded show ?thesis by (subst utf8_decode.simps) simp
    next
      case (Invalid n)
      with False "1.IH"(2) "1.prems" obtain t where "utf8_decode errs (drop n bs) = Inr t"
        by blast
      with False Invalid "1.prems" show ?thesis by (subst utf8_decode.simps) simp
    next
      case Truncated
      with False "1.prems" show ?thesis by (subst utf8_decode.simps) simp
    qed
  qed
qed

lemma magic_numbers_investments_items:
  "magic_numbers_investments =
     [([0x50, 0x4B, 0x03, 0x04], ''.xlsx''),
      ([0x50, 0x4B, 0x05, 0x06], ''.zip''),
      ([0x50, 0x4B, 0x07, 0x08], ''.zip''),
      ([0x52, 0x61, 0x72, 0x21], ''.rar''),
      ([0x37, 0x7A, 0xBC, 0xAF, 0x27, 0x1C], ''.7z''),
      ([0x25, 0x50, 0x44, 0x46], ''.pdf''),
      ([0xD0, 0xCF, 0x11, 0xE0, 0xA1, 0xB1, 0x1A, 0xE1], ''.xls''),
      ([0x1F, 0x8B], ''.gz''),
      ([0x42, 0x5A, 0x68], ''.bz2'')]"
  by (simp add: magic_numbers_investments_def dict_literal_def)

lemma magic_numbers_controls_items:
  "magic_numbers_controls =
     [([0xD0, 0xCF, 0x11, 0xE0, 0xA1, 0xB1, 0x1A, 0xE1], ''.xls''),
      ([0x50, 0x4B, 0x03, 0x04], ''.xlsx''),
      ([0x50, 0x4B, 0x05, 0x06], ''.xlsx''),
      ([0x50, 0x4B, 0x07, 0x08], ''.xlsx'')]"
  by (simp add: magic_numbers_controls_def dict_literal_def)

lemma detect_investments_total: "\<exists>label. detect_file_type_from_content_investments content = Inr label"
proof -
  obtain t where "utf8_decode Ignore (take 1024 content) = Inr t"
    using utf8_decode_ignore_total [of Ignore "take 1024 content"] by blast
  then show ?thesis
    by (simp add: detect_file_type_from_content_investments_def Let_def split: option.split)
qed

text \<open>
  Claim C5. The signature classifier returns a label for every byte buffer. On the empty
  buffer the general profile returns \<open>.file\<close> and the spreadsheet-only profile
  \<open>.xlsx\<close>. The decoding of the sniffing path, run with \<^verbatim>\<open>errors='ignore'\<close>, returns
  a text for every byte sequence: on the bytes FF 7B C3 it skips the invalid FF and the
  unfinished C3, where strict decoding raises.
\<close>

theorem signature_classifier_total:
  "(\<exists>label. detect_file_type_from_content_investments content = Inr label)
   \<and> detect_file_type_from_content_investments [] = Inr ''.file''
   \<and> detect_file_type_from_content_controls [] = ''.xlsx''
   \<and> (\<exists>decoded. utf8_decode Ignore bs = Inr decoded)
   \<and> utf8_decode Ignore [0xFF, 0x7B, 0xC3] = Inr [123]
   \<and> utf8_decode Strict [0xFF, 0x7B, 0xC3] = Inl UnicodeDecodeError"
proof -
  have "utf8_decode Ignore [0xFF, 0x7B, 0xC3] = Inr [123]"
    by (simp add: utf8_decode.simps)
  moreover have "utf8_decode Strict [0xFF, 0x7B, 0xC3] = Inl UnicodeDecodeError"
    by (simp add: utf8_decode.simps)
  moreover have "detect_file_type_from_content_investments [] = Inr ''.file''"
    by (simp add: detect_file_type_from_content_investments_def)
  moreover have "detect_file_type_from_content_controls [] = ''.xlsx''"
    by (simp add: detect_file_type_from_content_controls_def)
  ultimately show ?thesis
    using detect_investments_total [of content] utf8_decode_ignore_total [of Ignore bs]
    by simp
qed

lemma match_magic_controls_labels:
  "match_magic_controls items content = Some ext \<Longrightarrow> ext = ''.xlsx'' \<or> ext \<in> snd ` set items"
  by (induction items content rule: match_magic_controls.induct) (auto split: if_splits)

lemma detect_controls_labels:
  "detect_file_type_from_content_controls content = ''.xls''
   \<or> detect_file_type_from_content_controls content = ''.xlsx''"
proof (cases "match_magic_controls magic_numbers_controls content")
  case None
  then show ?thesis by (simp add: detect_file_type_from_content_controls_def)
next
  case (Some ext)
  from match_magic_controls_labels [OF Some] have "ext = ''.xls'' \<or> ext = ''.xlsx''"
    by (auto simp: magic_numbers_controls_items)
  with Some show ?thesis by (auto simp add: detect_file_type_from_content_controls_def)
qed

lemma match_magic_investments_none:
  "(\<forall>magic\<in>fst ` set items. \<not> startswith content magic)
     \<Longrightarrow> match_magic_investments items content = None"
  by (induction items content rule: match_magic_investments.induct) auto

section \<open>The pipeline, case by case\<close>

lemma read_chunks_investments_rest:
  "read_chunks_investments later (cs, Some f, e) = Inr (cs @ later, Some f, e)"
  by (induction later arbitrary: cs) simp_all

lemma read_chunks_controls_rest:
  "read_chunks_controls later (cs, Some f, e) = (cs @ later, Some f, e)"
  by (induction later arbitrary: cs) simp_all

lemma write_chunks_fits:
  "length (concat cs) \<le> space \<Longrightarrow> write_chunks space acc cs = (acc @ concat cs, True)"
  by (induction cs arbitrary: space acc) simp_all

lemma write_chunks_short:
  "space < length (concat cs) \<Longrightarrow>
     write_chunks space acc cs = (acc @ take space (concat cs), False)"
  by (induction cs arbitrary: space acc) simp_all

lemma save_file_cases:
  "save_file w name cs fs =
     (case open_error w name of
        Some text \<Rightarrow> (Inl (OSError text), fs)
      | None \<Rightarrow>
          if length (concat cs) \<le> disk_space w then (Inr (), fs(name \<mapsto> concat cs))
          else (Inl (OSError ''[Errno 28] No space left on device''),
                fs(name \<mapsto> take (disk_space w) (concat cs))))"
  using write_chunks_fits [of cs "disk_space w" "[]"] write_chunks_short [of "disk_space w" cs "[]"]
  by (simp add: save_file_def split: option.split)

lemma finish_download_cases:
  "finish_download w name method ext content_type cs fs =
     (case open_error w name of
        Some text \<Rightarrow> (Inl (OSError text), fs)
      | None \<Rightarrow>
          if disk_space w < length (concat cs)
          then (Inl (OSError ''[Errno 28] No space left on device''),
                fs(name \<mapsto> take (disk_space w) (concat cs)))
          else if report_ok w name method ext content_type
          then (Inr name, fs(name \<mapsto> concat cs))
          else (Inl UnicodeEncodeError, fs(name \<mapsto> concat cs)))"
  by (simp add: finish_download_def save_file_cases py_print_def report_ok_def not_le
      split: option.split)

lemma try_download_investments_cases:
  "try_download_investments w url base fs =
     (if \<not> print_ok w (''Downloading from: '' @ url) then (Inl UnicodeEncodeError, fs)
      else case http w url of
        Refused text \<Rightarrow> (Inl (RequestException text), fs)
      | Response status error_text header chunks ending \<Rightarrow>
          if 400 \<le> status \<and> status < 600 then (Inl (RequestException error_text), fs)
          else (case chunks of
             [] \<Rightarrow> (case ending of
                       Broken text \<Rightarrow> (Inl (RequestException text), fs)
                     | Exhausted \<Rightarrow> (Inl UnboundLocalError, fs))
           | chunk # later \<Rightarrow>
               (case detect_file_type_from_content_investments chunk of
                  Inl e \<Rightarrow> (Inl e, fs)
                | Inr ext \<Rightarrow>
                    (case ending of
                       Broken text \<Rightarrow> (Inl (RequestException text), fs)
                     | Exhausted \<Rightarrow>
                         finish_download w
                           (base @ decide_extension_investments ext
                              (get_file_extension_from_content_type_investments
                                 (case header of None \<Rightarrow> [] | Some v \<Rightarrow> v)))
                           (detection_method_investments ext
                              (get_file_extension_from_content_type_investments
                                 (case header of None \<Rightarrow> [] | Some v \<Rightarrow> v)))
                           (decide_extension_investments ext
                              (get_file_extension_from_content_type_investments
                                 (case header of None \<Rightarrow> [] | Some v \<Rightarrow> v)))
                           (case header of None \<Rightarrow> [] | Some v \<Rightarrow> v)
                           (chunk # later) fs))))"
  by (auto simp: try_download_investments_def py_print_def read_chunks_investments_rest Let_def
      split: http_exchange.split list.split sum.split stream_end.split)

lemma try_download_controls_cases:
  "try_download_controls w url base fs =
     (if \<not> print_ok w (''Downloading from: '' @ url) then (Inl UnicodeEncodeError, fs)
      else case http w url of
        Refused text \<Rightarrow> (Inl (RequestException text), fs)
      | Response status error_text header chunks ending \<Rightarrow>
          if 400 \<le> status \<and> status < 600 then (Inl (RequestException error_text), fs)
          else (case chunks of
             [] \<Rightarrow> (case ending of
                       Broken text \<Rightarrow> (Inl (RequestException text), fs)
                     | Exhausted \<Rightarrow> (Inl UnboundLocalError, fs))
           | chunk # later \<Rightarrow>
               (case ending of
                  Broken text \<Rightarrow> (Inl (RequestException text), fs)
                | Exhausted \<Rightarrow>
                    finish_download w
                      (base @ decide_extension_controls (detect_file_type_from_content_controls chunk)
                         (get_file_extension_from_content_type_controls
                            (case header of None \<Rightarrow> [] | Some v \<Rightarrow> v)))
                      (detection_method_controls (detect_file_type_from_content_controls chunk)
                         (get_file_extension_from_content_type_controls
                            (case header of None \<Rightarrow> [] | Some v \<Rightarrow> v)))
                      (decide_extension_controls (detect_file_type_from_content_controls chunk)
                         (get_file_extension_from_content_type_controls
                            (case header of None \<Rightarrow> [] | Some v \<Rightarrow> v)))
                      (case header of None \<Rightarrow> [] | Some v \<Rightarrow> v)
                      (chunk # later) fs)))"
  by (auto simp: try_download_controls_def py_print_def read_chunks_controls_rest Let_def
      split: http_exchange.split list.split stream_end.split)

lemma print_ok_ascii: "list_all (\<lambda>c. (of_char c :: nat) < 128) text \<Longrightarrow> print_ok w text"
  by (simp add: print_ok_def list_all_iff)

lemma print_ok_append: "print_ok w (a @ b) = (print_ok w a \<and> print_ok w b)"
  by (simp add: print_ok_def)

lemma handle_builtin_error:
  "handle_exception w url UnboundLocalError = Inr (False, None)"
  "handle_exception w url UnicodeEncodeError = Inr (False, None)"
  "handle_exception w url UnicodeDecodeError = Inr (False, None)"
  "handle_exception w url (OSError ''[Errno 28] No space left on device'') = Inr (False, None)"
  by (simp_all add: handle_exception_def handler_message_def str_exception_def py_print_def
      print_ok_def)

lemma detect_investments_not_raised:
  "detect_file_type_from_content_investments content \<noteq> Inl e"
  using detect_investments_total [of content] by auto


lemma handle_os_error:
  "handle_exception w url (OSError text) =
     (if print_ok w (''Unexpected error: '' @ text) then Inr (False, None)
      else Inl UnicodeEncodeError)"
  by (simp add: handle_exception_def handler_message_def str_exception_def py_print_def)

lemma handle_exception_cases:
  "handle_exception w url e =
     (if print_ok w (handler_message url e) then Inr (False, None) else Inl UnicodeEncodeError)"
  by (simp add: handle_exception_def py_print_def)

lemma decide_controls_is_content:
  "decide_extension_controls (detect_file_type_from_content_controls chunk) h
     = detect_file_type_from_content_controls chunk"
  using detect_controls_labels [of chunk] by (auto simp: decide_extension_controls_def)

text \<open>When a call of \<^verbatim>\<open>download_file\<close> returns success.\<close>

lemma download_file_investments_success:
  "fst (download_file_investments w url base fs) = Inr (True, Some name) \<longleftrightarrow>
     print_ok w (''Downloading from: '' @ url)
     \<and> (\<exists>status error_text header chunk later ext.
          http w url = Response status error_text header (chunk # later) Exhausted
          \<and> \<not> (400 \<le> status \<and> status < 600)
          \<and> detect_file_type_from_content_investments chunk = Inr ext
          \<and> name = base @ decide_extension_investments ext
               (get_file_extension_from_content_type_investments
                  (case header of None \<Rightarrow> [] | Some v \<Rightarrow> v))
          \<and> open_error w name = None
          \<and> length (concat (chunk # later)) \<le> disk_space w
          \<and> report_ok w name
               (detection_method_investments ext
                  (get_file_extension_from_content_type_investments
                     (case header of None \<Rightarrow> [] | Some v \<Rightarrow> v)))
               (decide_extension_investments ext
                  (get_file_extension_from_content_type_investments
                     (case header of None \<Rightarrow> [] | Some v \<Rightarrow> v)))
               (case header of None \<Rightarrow> [] | Some v \<Rightarrow> v))"
  by (auto simp: download_file_investments_def try_download_investments_cases
      finish_download_cases handle_exception_cases not_le
      split: http_exchange.splits list.splits sum.splits stream_end.splits option.splits
        if_splits)

lemma download_file_controls_success:
  "fst (download_file_controls w url base fs) = Inr (True, Some name) \<longleftrightarrow>
     print_ok w (''Downloading from: '' @ url)
     \<and> (\<exists>status error_text header chunk later.
          http w url = Response status error_text header (chunk # later) Exhausted
          \<and> \<not> (400 \<le> status \<and> status < 600)
          \<and> name = base @ detect_file_type_from_content_controls chunk
          \<and> open_error w name = None
          \<and> length (concat (chunk # later)) \<le> disk_space w
          \<and> report_ok w name
               (detection_method_controls (detect_file_type_from_content_controls chunk)
                  (get_file_extension_from_content_type_controls
                     (case header of None \<Rightarrow> [] | Some v \<Rightarrow> v)))
               (detect_file_type_from_content_controls chunk)
               (case header of None \<Rightarrow> [] | Some v \<Rightarrow> v))"
  by (auto simp: download_file_controls_def try_download_controls_cases
      finish_download_cases handle_exception_cases decide_controls_is_content not_le
      split: http_exchange.splits list.splits stream_end.splits option.splits if_splits)

lemma download_file_investments_saved:
  assumes "print_ok w (''Downloading from: '' @ url)"
    and "http w url = Response status error_text header (chunk # later) Exhausted"
    and "\<not> (400 \<le> status \<and> status < 600)"
    and "detect_file_type_from_content_investments chunk = Inr ext"
    and "content_type = (case header of None \<Rightarrow> [] | Some v \<Rightarrow> v)"
    and "name = base @ decide_extension_investments ext
           (get_file_extension_from_content_type_investments content_type)"
    and "open_error w name = None"
    and "length (concat (chunk # later)) \<le> disk_space w"
    and "report_ok w name
           (detection_method_investments ext
              (get_file_extension_from_content_type_investments content_type))
           (decide_extension_investments ext
              (get_file_extension_from_content_type_investments content_type))
           content_type"
  shows "download_file_investments w url base fs
           = (Inr (True, Some name), fs(name \<mapsto> concat (chunk # later)))"
  using assms
  by (auto simp: download_file_investments_def try_download_investments_cases
      finish_download_cases)

lemma download_file_controls_saved:
  assumes "print_ok w (''Downloading from: '' @ url)"
    and "http w url = Response status error_text header (chunk # later) Exhausted"
    and "\<not> (400 \<le> status \<and> status < 600)"
    and "content_type = (case header of None \<Rightarrow> [] | Some v \<Rightarrow> v)"
    and "name = base @ detect_file_type_from_content_controls chunk"
    and "open_error w name = None"
    and "length (concat (chunk # later)) \<le> disk_space w"
    and "report_ok w name
           (detection_method_controls (detect_file_type_from_content_controls chunk)
              (get_file_extension_from_content_type_controls content_type))
           (detect_file_type_from_content_controls chunk)
           content_type"
  shows "download_file_controls w url base fs
           = (Inr (True, Some name), fs(name \<mapsto> concat (chunk # later)))"
  using assms
  by (auto simp: download_file_controls_def try_download_controls_cases
      finish_download_cases decide_controls_is_content)

lemma serving_world:
  "http (serving x space) url = x"
  "open_error (serving x space) name = None"
  "disk_space (serving x space) = space"
  "print_ok (serving x space) text"
  "report_ok (serving x space) a b c d"
  by (simp_all add: serving_def print_ok_def report_ok_def list_all_iff)

section \<open>Properties of the general-profile classifier\<close>

text \<open>
  Claim C2 says that a ZIP buffer whose first 1024 bytes contain \<open>word/\<close> is labelled
  \<open>.docx\<close>. A word-processor package begins with the entry \<open>[Content_Types].xml\<close>
  and holds its document under \<open>word/\<close>; the classifier tests the spreadsheet markers
  first, \<open>[Content_Types].xml\<close> among them, and labels such a buffer \<open>.xlsx\<close>. Its
  \<open>.docx\<close> branch is reached only by a buffer without \<open>[Content_Types].xml\<close>.
\<close>

theorem zip_docx_package_labelled_xlsx:
  "startswith ([0x50, 0x4B, 0x03, 0x04] @ ascii ''[Content_Types].xml word/document.xml'')
     [0x50, 0x4B, 0x03, 0x04]
   \<and> contains (take 1024 ([0x50, 0x4B, 0x03, 0x04] @ ascii ''[Content_Types].xml word/document.xml''))
         (ascii ''word/'')
   \<and> detect_file_type_from_content_investments
         ([0x50, 0x4B, 0x03, 0x04] @ ascii ''[Content_Types].xml word/document.xml'')
       = Inr ''.xlsx''
   \<and> detect_file_type_from_content_investments
         ([0x50, 0x4B, 0x03, 0x04] @ ascii ''word/document.xml'')
       = Inr ''.docx''"
  by (simp add: detect_file_type_from_content_investments_def magic_numbers_investments_items
      ascii_def)

lemma sniffing_investments:
  assumes "content \<noteq> []"
    and "\<forall>magic\<in>fst ` set magic_numbers_investments. \<not> startswith content magic"
    and "utf8_decode Ignore (take 1024 content) = Inr decoded"
  shows "detect_file_type_from_content_investments content =
     Inr (if startswith (text_lower decoded) (text_of ''<?xml'') then ''.xml''
          else if startswith (text_lower decoded) (text_of ''{'')
                  \<or> startswith (text_lower decoded) (text_of ''['') then ''.json''
          else if contains (text_lower decoded) (text_of '','')
                  \<and> contains (text_lower decoded) [10] then ''.csv''
          else ''.file'')"
  using assms match_magic_investments_none [of magic_numbers_investments content]
  by (simp add: detect_file_type_from_content_investments_def Let_def)

lemma leading_brace_is_json:
  assumes "startswith decoded (text_of ''{'')"
  shows "\<not> startswith (text_lower decoded) (text_of ''<?xml'')"
    and "startswith (text_lower decoded) (text_of ''{'')"
proof -
  from assms obtain t where "decoded = 123 # t"
    by (cases decoded) (auto simp: text_of_def)
  then show "\<not> startswith (text_lower decoded) (text_of ''<?xml'')"
    and "startswith (text_lower decoded) (text_of ''{'')"
    by (simp_all add: text_lower_def text_of_def)
qed

text \<open>
  Claim C8. For every non-empty byte buffer that starts with none of the binary
  signatures, the general-profile classifier sniffs the lower-cased text decoded from
  the first 1024 bytes in this order: a leading \<open><?xml\<close> gives \<open>.xml\<close>, a leading
  \<open>{\<close> or \<open>[\<close> gives \<open>.json\<close>, otherwise a comma together with a line feed gives
  \<open>.csv\<close>. In particular, when the decoded text starts with \<open>{\<close> the label is
  \<open>.json\<close>, and every download with that buffer as its first chunk that returns
  success returns the filename \<open>base_filename + '.json'\<close>.
\<close>

theorem textual_sniffing_order:
  "content \<noteq> [] \<Longrightarrow>
   \<forall>magic\<in>fst ` set magic_numbers_investments. \<not> startswith content magic \<Longrightarrow>
   utf8_decode Ignore (take 1024 content) = Inr decoded \<Longrightarrow>
     detect_file_type_from_content_investments content =
       Inr (if startswith (text_lower decoded) (text_of ''<?xml'') then ''.xml''
            else if startswith (text_lower decoded) (text_of ''{'')
                    \<or> startswith (text_lower decoded) (text_of ''['') then ''.json''
            else if contains (text_lower decoded) (text_of '','')
                    \<and> contains (text_lower decoded) [10] then ''.csv''
            else ''.file'')
     \<and> (startswith decoded (text_of ''{'') \<longrightarrow>
          detect_file_type_from_content_investments content = Inr ''.json''
          \<and> (http w url = Response status error_text header (content # later) ending
               \<and> fst (download_file_investments w url base_filename fs)
                   = Inr (True, Some final_filename) \<longrightarrow>
              final_filename = base_filename @ ''.json''))"
proof -
  assume a: "content \<noteq> []"
    "\<forall>magic\<in>fst ` set magic_numbers_investments. \<not> startswith content magic"
    "utf8_decode Ignore (take 1024 content) = Inr decoded"
  have sniff: "detect_file_type_from_content_investments content =
       Inr (if startswith (text_lower decoded) (text_of ''<?xml'') then ''.xml''
            else if startswith (text_lower decoded) (text_of ''{'')
                    \<or> startswith (text_lower decoded) (text_of ''['') then ''.json''
            else if contains (text_lower decoded) (text_of '','')
                    \<and> contains (text_lower decoded) [10] then ''.csv''
            else ''.file'')"
    using a by (rule sniffing_investments)
  have json: "detect_file_type_from_content_investments content = Inr ''.json''"
    if b: "startswith decoded (text_of ''{'')"
    using sniff leading_brace_is_json [OF b] by simp
  have dec: "decide_extension_investments ''.json'' h = ''.json''" for h
    by (simp add: decide_extension_investments_def)
  have saved: "final_filename = base_filename @ ''.json''"
    if b: "startswith decoded (text_of ''{'')"
      and c: "http w url = Response status error_text header (content # later) ending
               \<and> fst (download_file_investments w url base_filename fs)
                   = Inr (True, Some final_filename)"
  proof -
    from c obtain ext h where "detect_file_type_from_content_investments content = Inr ext"
      and "final_filename = base_filename @ decide_extension_investments ext h"
      by (auto simp: download_file_investments_success)
    with json [OF b] dec show ?thesis by simp
  qed
  show ?thesis
    using sniff json saved by blast
qed

theorem textual_sniffing_order_witness:
  "[0xFF] @ ascii ''{a'' \<noteq> []
   \<and> utf8_decode Ignore (take 1024 ([0xFF] @ ascii ''{a'')) = Inr [123, 97]
   \<and> startswith [123, 97] (text_of ''{'')
   \<and> detect_file_type_from_content_investments ([0xFF] @ ascii ''{a'') = Inr ''.json''
   \<and> fst (download_file_investments
             (serving (Response 200 [] None [[0xFF] @ ascii ''{a''] Exhausted) 100)
             ''u'' ''data'' Map.empty) = Inr (True, Some ''data.json'')"
proof -
  have d: "utf8_decode Ignore (take 1024 ([0xFF] @ ascii ''{a'')) = Inr [123, 97]"
    by (simp add: ascii_def utf8_decode.simps)
  have m: "\<forall>magic\<in>fst ` set magic_numbers_investments. \<not> startswith ([0xFF] @ ascii ''{a'') magic"
    by (simp add: magic_numbers_investments_items ascii_def)
  have s: "startswith [123, 97] (text_of ''{'')"
    by (simp add: text_of_def)
  have ne: "[0xFF] @ ascii ''{a'' \<noteq> []"
    by simp
  have len: "length (concat [[0xFF] @ ascii ''{a'']) \<le> 100"
    by (simp add: ascii_def)
  note r = textual_sniffing_order [OF ne m d,
      of "serving (Response 200 [] None [[0xFF] @ ascii ''{a''] Exhausted) 100" "''u''"
        200 "[]" None "[]" Exhausted "''data''" Map.empty]
  from r s have j: "detect_file_type_from_content_investments ([0xFF] @ ascii ''{a'') = Inr ''.json''"
    by blast
  obtain name where success: "fst (download_file_investments
             (serving (Response 200 [] None [[0xFF] @ ascii ''{a''] Exhausted) 100)
             ''u'' ''data'' Map.empty) = Inr (True, Some name)"
    using download_file_investments_saved
      [of "serving (Response 200 [] None [[0xFF] @ ascii ''{a''] Exhausted) 100" "''u''"
        200 "[]" None "[0xFF] @ ascii ''{a''" "[]" "''.json''" "[]" _ "''data''" Map.empty]
      j len
    by (simp add: serving_world)
  from r [of name] s success have "name = ''data'' @ ''.json''"
    by (simp add: serving_world)
  with success ne d s j show ?thesis
    by simp
qed

section \<open>Properties of the download pipeline\<close>

text \<open>
  Claim C10. In the spreadsheet-only pipeline the signature classifier returns \<open>.xls\<close>
  or \<open>.xlsx\<close> for every buffer, so the file name of every successful download ends
  in \<open>.xls\<close> or \<open>.xlsx\<close>; the labels \<open>.csv\<close>, \<open>.json\<close>, \<open>.txt\<close> and \<open>.xml\<close>
  of the metadata table never become the final extension.
\<close>

theorem controls_extension_is_spreadsheet:
  "(detect_file_type_from_content_controls content = ''.xls''
      \<or> detect_file_type_from_content_controls content = ''.xlsx'')
   \<and> (fst (download_file_controls w url base_filename fs) = Inr (True, Some final_filename) \<longrightarrow>
        (final_filename = base_filename @ ''.xls'' \<or> final_filename = base_filename @ ''.xlsx'')
        \<and> final_filename \<noteq> base_filename @ ''.csv''
        \<and> final_filename \<noteq> base_filename @ ''.json''
        \<and> final_filename \<noteq> base_filename @ ''.txt''
        \<and> final_filename \<noteq> base_filename @ ''.xml'')"
proof -
  have "final_filename = base_filename @ ''.xls'' \<or> final_filename = base_filename @ ''.xlsx''"
    if "fst (download_file_controls w url base_filename fs) = Inr (True, Some final_filename)"
  proof -
    from that obtain chunk where
      "final_filename = base_filename @ detect_file_type_from_content_controls chunk"
      by (auto simp: download_file_controls_success)
    with detect_controls_labels [of chunk] show ?thesis by auto
  qed
  then show ?thesis
    using detect_controls_labels [of content] by auto
qed

theorem controls_extension_is_spreadsheet_witness:
  "fst (download_file_controls
          (serving (Response 200 [] (Some ''text/csv'') [ascii ''a,b''] Exhausted) 100)
          ''u'' ''data'' Map.empty) = Inr (True, Some ''data.xlsx'')
   \<and> detect_file_type_from_content_controls (ascii ''a,b'') = ''.xlsx''
   \<and> ''data.xlsx'' \<noteq> ''data'' @ ''.csv''"
proof -
  have d: "detect_file_type_from_content_controls (ascii ''a,b'') = ''.xlsx''"
    by (simp add: detect_file_type_from_content_controls_def magic_numbers_controls_items ascii_def)
  have len: "length (concat [ascii ''a,b'']) \<le> 100"
    by (simp add: ascii_def)
  have r: "fst (download_file_controls
                  (serving (Response 200 [] (Some ''text/csv'') [ascii ''a,b''] Exhausted) 100)
                  ''u'' ''data'' Map.empty) = Inr (True, Some ''data.xlsx'')"
    using download_file_controls_saved
      [of "serving (Response 200 [] (Some ''text/csv'') [ascii ''a,b''] Exhausted) 100" "''u''"
        200 "[]" "Some ''text/csv''" "ascii ''a,b''" "[]" "''text/csv''" "''data.xlsx''"
        "''data''" Map.empty] len
    by (simp add: serving_world d)
  from controls_extension_is_spreadsheet
    [of "ascii ''a,b''"
      "serving (Response 200 [] (Some ''text/csv'') [ascii ''a,b''] Exhausted) 100"
      "''u''" "''data''" Map.empty "''data.xlsx''"] r
  have "''data.xlsx'' \<noteq> ''data'' @ ''.csv''"
    by blast
  with r d show ?thesis by blast
qed

text \<open>
  Claim C9. When the HTTP exchange succeeds (a response whose status is not 400 to 599)
  and the body yields no chunk, the loop leaves \<^verbatim>\<open>extension_from_content\<close> unbound, the
  precedence step raises \<^verbatim>\<open>UnboundLocalError\<close>, and the call returns \<^verbatim>\<open>(False, None)\<close>
  with the filesystem unchanged, in both scripts. (When the very first \<^verbatim>\<open>print\<close> fails
  the request is never sent; the call returns \<^verbatim>\<open>(False, None)\<close> all the same.)
\<close>

theorem empty_body_is_failure:
  "http w url = Response status error_text header [] Exhausted \<Longrightarrow>
   \<not> (400 \<le> status \<and> status < 600) \<Longrightarrow>
     read_chunks_investments [] ([], None, None) = Inr ([], None, None)
     \<and> (print_ok w (''Downloading from: '' @ url) \<longrightarrow>
          try_download_investments w url base_filename fs = (Inl UnboundLocalError, fs))
     \<and> download_file_investments w url base_filename fs = (Inr (False, None), fs)
     \<and> read_chunks_controls [] ([], None, None) = ([], None, None)
     \<and> (print_ok w (''Downloading from: '' @ url) \<longrightarrow>
          try_download_controls w url base_filename fs = (Inl UnboundLocalError, fs))
     \<and> download_file_controls w url base_filename fs = (Inr (False, None), fs)"
  by (auto simp: try_download_investments_cases try_download_controls_cases
      download_file_investments_def download_file_controls_def handle_builtin_error)

theorem empty_body_is_failure_witness:
  "http (serving (Response 200 [] None [] Exhausted) 100) ''u'' = Response 200 [] None [] Exhausted
   \<and> try_download_investments (serving (Response 200 [] None [] Exhausted) 100) ''u'' ''data''
       Map.empty = (Inl UnboundLocalError, Map.empty)
   \<and> download_file_investments (serving (Response 200 [] None [] Exhausted) 100) ''u'' ''data''
       Map.empty = (Inr (False, None), Map.empty)
   \<and> download_file_controls (serving (Response 200 [] None [] Exhausted) 100) ''u'' ''data''
       Map.empty = (Inr (False, None), Map.empty)"
proof -
  have h: "http (serving (Response 200 [] None [] Exhausted) 100) ''u''
             = Response 200 [] None [] Exhausted"
    by (simp add: serving_world)
  have s: "\<not> (400 \<le> (200::nat) \<and> (200::nat) < 600)"
    by simp
  have p: "print_ok (serving (Response 200 [] None [] Exhausted) 100) (''Downloading from: '' @ ''u'')"
    by (rule serving_world)
  from empty_body_is_failure [OF h s, of "''data''" Map.empty] h p show ?thesis
    by blast
qed

text \<open>
  Claim C1 as stated fails in the spreadsheet-only profile. The body \<open>hello\<close> matches
  no signature, so the signature label is the sentinel \<open>.xlsx\<close>; the header
  \<open>application/vnd.ms-excel\<close> gives the non-sentinel metadata label \<open>.xls\<close>; the
  file is saved as \<open>data.xlsx\<close>, not \<open>data.xls\<close>.
\<close>

theorem controls_precedence_counterexample:
  "detect_file_type_from_content_controls (ascii ''hello'') = ''.xlsx''
   \<and> get_file_extension_from_content_type_controls ''application/vnd.ms-excel'' = ''.xls''
   \<and> fst (download_file_controls
             (serving (Response 200 [] (Some ''application/vnd.ms-excel'') [ascii ''hello'']
                Exhausted) 100)
             ''u'' ''data'' Map.empty) = Inr (True, Some ''data.xlsx'')"
proof -
  have d: "detect_file_type_from_content_controls (ascii ''hello'') = ''.xlsx''"
    by (simp add: detect_file_type_from_content_controls_def magic_numbers_controls_items ascii_def)
  have h: "get_file_extension_from_content_type_controls ''application/vnd.ms-excel'' = ''.xls''"
    by code_simp
  have len: "length (concat [ascii ''hello'']) \<le> 100"
    by (simp add: ascii_def)
  have "fst (download_file_controls
             (serving (Response 200 [] (Some ''application/vnd.ms-excel'') [ascii ''hello'']
                Exhausted) 100)
             ''u'' ''data'' Map.empty) = Inr (True, Some ''data.xlsx'')"
    using download_file_controls_saved
      [of "serving (Response 200 [] (Some ''application/vnd.ms-excel'') [ascii ''hello'']
             Exhausted) 100" "''u''"
        200 "[]" "Some ''application/vnd.ms-excel''" "ascii ''hello''" "[]"
        "''application/vnd.ms-excel''" "''data.xlsx''" "''data''" Map.empty] len
    by (simp add: serving_world d)
  with d h show ?thesis by blast
qed

text \<open>
  Claim C1, amended. For every download that returns success, with \<open>chunk\<close> the first
  chunk of the body: in the general profile (sentinel \<open>.file\<close>) a signature label other
  than the sentinel is the final extension, otherwise a metadata label other than the
  sentinel is, otherwise \<open>.file\<close>; in the spreadsheet-only profile the test is
  membership in \<open>{.xls, .xlsx}\<close>, which every signature label passes, so the
  signature label is always the final extension and the metadata label is never used.
\<close>

theorem extension_precedence:
  "http w url = Response status error_text header (chunk # later) ending \<Longrightarrow>
   content_type = (case header of None \<Rightarrow> [] | Some v \<Rightarrow> v) \<Longrightarrow>
     (detect_file_type_from_content_investments chunk = Inr sig
        \<and> fst (download_file_investments w url base_filename fs) = Inr (True, Some final_filename)
      \<longrightarrow> final_filename = base_filename @
            (if sig \<noteq> ''.file'' then sig
             else if get_file_extension_from_content_type_investments content_type \<noteq> ''.file''
                  then get_file_extension_from_content_type_investments content_type
             else ''.file''))
     \<and> (fst (download_file_controls w url base_filename fs) = Inr (True, Some final_filename)
      \<longrightarrow> final_filename = base_filename @ detect_file_type_from_content_controls chunk)
     \<and> (detect_file_type_from_content_controls chunk = ''.xls''
          \<or> detect_file_type_from_content_controls chunk = ''.xlsx'')"
proof -
  assume a: "http w url = Response status error_text header (chunk # later) ending"
    "content_type = (case header of None \<Rightarrow> [] | Some v \<Rightarrow> v)"
  have inv: "final_filename = base_filename @
            (if sig \<noteq> ''.file'' then sig
             else if get_file_extension_from_content_type_investments content_type \<noteq> ''.file''
                  then get_file_extension_from_content_type_investments content_type
             else ''.file'')"
    if "detect_file_type_from_content_investments chunk = Inr sig"
      and "fst (download_file_investments w url base_filename fs) = Inr (True, Some final_filename)"
    using that a
    by (auto simp: download_file_investments_success decide_extension_investments_def)
  have ctl: "final_filename = base_filename @ detect_file_type_from_content_controls chunk"
    if "fst (download_file_controls w url base_filename fs) = Inr (True, Some final_filename)"
    using that a by (auto simp: download_file_controls_success)
  show ?thesis
    using inv ctl detect_controls_labels [of chunk] by blast
qed

theorem extension_precedence_witness:
  "detect_file_type_from_content_investments (ascii ''%PDF-1.7'') = Inr ''.pdf''
   \<and> get_file_extension_from_content_type_investments ''application/octet-stream'' = ''.bin''
   \<and> fst (download_file_investments
             (serving (Response 200 [] (Some ''application/octet-stream'') [ascii ''%PDF-1.7'']
                Exhausted) 100)
             ''u'' ''report'' Map.empty) = Inr (True, Some ''report.pdf'')
   \<and> detect_file_type_from_content_investments (ascii ''hello'') = Inr ''.file''
   \<and> get_file_extension_from_content_type_investments ''text/plain'' = ''.txt''
   \<and> fst (download_file_investments
             (serving (Response 200 [] (Some ''text/plain'') [ascii ''hello''] Exhausted) 100)
             ''u'' ''notes'' Map.empty) = Inr (True, Some ''notes.txt'')
   \<and> fst (download_file_investments
             (serving (Response 200 [] None [ascii ''hello''] Exhausted) 100)
             ''u'' ''blob'' Map.empty) = Inr (True, Some ''blob.file'')
   \<and> fst (download_file_controls
             (serving (Response 200 [] (Some ''text/plain'') [ascii ''hello''] Exhausted) 100)
             ''u'' ''notes'' Map.empty) = Inr (True, Some ''notes.xlsx'')"
proof -
  have pdf: "detect_file_type_from_content_investments (ascii ''%PDF-1.7'') = Inr ''.pdf''"
    by (simp add: detect_file_type_from_content_investments_def magic_numbers_investments_items
        ascii_def)
  have hello: "detect_file_type_from_content_investments (ascii ''hello'') = Inr ''.file''"
    by (simp add: detect_file_type_from_content_investments_def magic_numbers_investments_items
        ascii_def utf8_decode.simps text_lower_def text_of_def)
  have chello: "detect_file_type_from_content_controls (ascii ''hello'') = ''.xlsx''"
    by (simp add: detect_file_type_from_content_controls_def magic_numbers_controls_items ascii_def)
  have octet: "get_file_extension_from_content_type_investments ''application/octet-stream'' = ''.bin''"
    by code_simp
  have plain: "get_file_extension_from_content_type_investments ''text/plain'' = ''.txt''"
    by code_simp
  have absent: "get_file_extension_from_content_type_investments [] = ''.file''"
    by code_simp
  have len: "length (concat [ascii ''%PDF-1.7'']) \<le> 100" "length (concat [ascii ''hello'']) \<le> 100"
    by (simp_all add: ascii_def)
  define n1 where "n1 = ''report'' @ decide_extension_investments ''.pdf''
    (get_file_extension_from_content_type_investments ''application/octet-stream'')"
  define n2 where "n2 = ''notes'' @ decide_extension_investments ''.file''
    (get_file_extension_from_content_type_investments ''text/plain'')"
  define n3 where "n3 = ''blob'' @ decide_extension_investments ''.file''
    (get_file_extension_from_content_type_investments [])"
  define n4 where "n4 = ''notes'' @ detect_file_type_from_content_controls (ascii ''hello'')"
  have s1: "fst (download_file_investments
             (serving (Response 200 [] (Some ''application/octet-stream'') [ascii ''%PDF-1.7'']
                Exhausted) 100)
             ''u'' ''report'' Map.empty) = Inr (True, Some n1)"
    using download_file_investments_saved
      [of "serving (Response 200 [] (Some ''application/octet-stream'') [ascii ''%PDF-1.7'']
             Exhausted) 100" "''u''" 200 "[]" "Some ''application/octet-stream''"
        "ascii ''%PDF-1.7''" "[]" "''.pdf''" "''application/octet-stream''" n1 "''report''"
        Map.empty] pdf len(1)
    by (simp add: serving_world n1_def)
  have s2: "fst (download_file_investments
             (serving (Response 200 [] (Some ''text/plain'') [ascii ''hello''] Exhausted) 100)
             ''u'' ''notes'' Map.empty) = Inr (True, Some n2)"
    using download_file_investments_saved
      [of "serving (Response 200 [] (Some ''text/plain'') [ascii ''hello''] Exhausted) 100"
        "''u''" 200 "[]" "Some ''text/plain''" "ascii ''hello''" "[]" "''.file''"
        "''text/plain''" n2 "''notes''" Map.empty] hello len(2)
    by (simp add: serving_world n2_def)
  have s3: "fst (download_file_investments
             (serving (Response 200 [] None [ascii ''hello''] Exhausted) 100)
             ''u'' ''blob'' Map.empty) = Inr (True, Some n3)"
    using download_file_investments_saved
      [of "serving (Response 200 [] None [ascii ''hello''] Exhausted) 100"
        "''u''" 200 "[]" None "ascii ''hello''" "[]" "''.file''" "[]" n3 "''blob''" Map.empty]
      hello len(2)
    by (simp add: serving_world n3_def)
  have s4: "fst (download_file_controls
             (serving (Response 200 [] (Some ''text/plain'') [ascii ''hello''] Exhausted) 100)
             ''u'' ''notes'' Map.empty) = Inr (True, Some n4)"
    using download_file_controls_saved
      [of "serving (Response 200 [] (Some ''text/plain'') [ascii ''hello''] Exhausted) 100"
        "''u''" 200 "[]" "Some ''text/plain''" "ascii ''hello''" "[]" "''text/plain''" n4
        "''notes''" Map.empty] len(2)
    by (simp add: serving_world n4_def)
  from extension_precedence [where w = "serving (Response 200 [] (Some ''application/octet-stream'') [ascii ''%PDF-1.7'']
        Exhausted) 100"
      and url = "''u''" and status = 200 and error_text = "[]" and header = "Some ''application/octet-stream''"
      and chunk = "ascii ''%PDF-1.7''" and later = "[]" and ending = Exhausted
      and content_type = "''application/octet-stream''" and sig = "''.pdf''" and base_filename = "''report''"
      and fs = Map.empty and final_filename = n1] pdf s1
  have "n1 = ''report.pdf''" by (simp add: serving_world)
  with s1 have r1: "fst (download_file_investments
             (serving (Response 200 [] (Some ''application/octet-stream'') [ascii ''%PDF-1.7'']
                Exhausted) 100)
             ''u'' ''report'' Map.empty) = Inr (True, Some ''report.pdf'')"
    by simp
  from extension_precedence [where w = "serving (Response 200 [] (Some ''text/plain'') [ascii ''hello''] Exhausted) 100"
      and url = "''u''" and status = 200 and error_text = "[]" and header = "Some ''text/plain''"
      and chunk = "ascii ''hello''" and later = "[]" and ending = Exhausted
      and content_type = "''text/plain''" and sig = "''.file''" and base_filename = "''notes''"
      and fs = Map.empty and final_filename = n2] hello s2 plain
  have "n2 = ''notes.txt''" by (simp add: serving_world)
  with s2 have r2: "fst (download_file_investments
             (serving (Response 200 [] (Some ''text/plain'') [ascii ''hello''] Exhausted) 100)
             ''u'' ''notes'' Map.empty) = Inr (True, Some ''notes.txt'')"
    by simp
  from extension_precedence [where w = "serving (Response 200 [] None [ascii ''hello''] Exhausted) 100"
      and url = "''u''" and status = 200 and error_text = "[]" and header = "None"
      and chunk = "ascii ''hello''" and later = "[]" and ending = Exhausted
      and content_type = "[]" and sig = "''.file''" and base_filename = "''blob''"
      and fs = Map.empty and final_filename = n3] hello s3 absent
  have "n3 = ''blob.file''" by (simp add: serving_world)
  with s3 have r3: "fst (download_file_investments
             (serving (Response 200 [] None [ascii ''hello''] Exhausted) 100)
             ''u'' ''blob'' Map.empty) = Inr (True, Some ''blob.file'')"
    by simp
  from extension_precedence [where w = "serving (Response 200 [] (Some ''text/plain'') [ascii ''hello''] Exhausted) 100"
      and url = "''u''" and status = 200 and error_text = "[]" and header = "Some ''text/plain''"
      and chunk = "ascii ''hello''" and later = "[]" and ending = Exhausted
      and content_type = "''text/plain''" and sig = "''.file''" and base_filename = "''notes''"
      and fs = Map.empty and final_filename = n4] s4 chello
  have "n4 = ''notes.xlsx''" by (simp add: serving_world)
  with s4 have r4: "fst (download_file_controls
             (serving (Response 200 [] (Some ''text/plain'') [ascii ''hello''] Exhausted) 100)
             ''u'' ''notes'' Map.empty) = Inr (True, Some ''notes.xlsx'')"
    by simp
  from pdf octet hello plain r1 r2 r3 r4 show ?thesis
    by blast
qed










text \<open>
  Claim C3 as stated fails when a write fails after the file was opened. The body
  \<open>ab\<close>, \<open>cd\<close> is buffered in full, \<open>data.file\<close> is opened, the disk takes three
  bytes, the fourth raises: the call returns \<^verbatim>\<open>(False, None)\<close> and the partial file
  \<open>abc\<close> stays.
\<close>

theorem partial_file_counterexample:
  "fst (download_file_investments
          (serving (Response 200 [] None [ascii ''ab'', ascii ''cd''] Exhausted) 3)
          ''u'' ''data'' Map.empty) = Inr (False, None)
   \<and> snd (download_file_investments
          (serving (Response 200 [] None [ascii ''ab'', ascii ''cd''] Exhausted) 3)
          ''u'' ''data'' Map.empty) ''data.file'' = Some (ascii ''abc'')"
proof -
  have d: "detect_file_type_from_content_investments (ascii ''ab'') = Inr ''.file''"
    by (simp add: detect_file_type_from_content_investments_def magic_numbers_investments_items
        ascii_def utf8_decode.simps text_lower_def text_of_def)
  have h: "get_file_extension_from_content_type_investments [] = ''.file''"
    by code_simp
  have "download_file_investments
          (serving (Response 200 [] None [ascii ''ab'', ascii ''cd''] Exhausted) 3)
          ''u'' ''data'' Map.empty
        = (Inr (False, None), [''data.file'' \<mapsto> take 3 (concat [ascii ''ab'', ascii ''cd''])])"
    by (simp add: download_file_investments_def try_download_investments_cases
        finish_download_cases serving_world d h decide_extension_investments_def
        handle_builtin_error)
      (simp add: ascii_def)
  then show ?thesis
    by (simp add: ascii_def)
qed

lemma filesystem_after_investments:
  "(\<not> print_ok w (''Downloading from: '' @ url) \<or> http w url = Refused reason
      \<or> http w url = Response status error_text header chunks ending
          \<and> (400 \<le> status \<and> status < 600 \<or> ending = Broken reason \<or> chunks = []) \<longrightarrow>
      snd (download_file_investments w url base fs) = fs
      \<and> fst (download_file_investments w url base fs) \<noteq> Inr (True, Some name))
   \<and> (print_ok w (''Downloading from: '' @ url)
        \<and> http w url = Response status error_text header (chunk # later) Exhausted
        \<and> \<not> (400 \<le> status \<and> status < 600)
        \<and> detect_file_type_from_content_investments chunk = Inr ext
        \<and> target = base @ decide_extension_investments ext
             (get_file_extension_from_content_type_investments
                (case header of None \<Rightarrow> [] | Some v \<Rightarrow> v)) \<longrightarrow>
        (open_error w target = Some message \<longrightarrow>
           snd (download_file_investments w url base fs) = fs
           \<and> fst (download_file_investments w url base fs) \<noteq> Inr (True, Some name))
        \<and> (open_error w target = None \<and> disk_space w < length (concat (chunk # later)) \<longrightarrow>
           snd (download_file_investments w url base fs)
             = fs(target \<mapsto> take (disk_space w) (concat (chunk # later)))
           \<and> fst (download_file_investments w url base fs) = Inr (False, None))
        \<and> (open_error w target = None \<and> length (concat (chunk # later)) \<le> disk_space w \<longrightarrow>
           snd (download_file_investments w url base fs)
             = fs(target \<mapsto> concat (chunk # later))))
   \<and> (fst (download_file_investments w url base fs) = Inr (True, Some name) \<longrightarrow>
        (\<exists>status' error_text' header' chunk' later' ext'.
           http w url = Response status' error_text' header' (chunk' # later') Exhausted
           \<and> detect_file_type_from_content_investments chunk' = Inr ext'
           \<and> name = base @ decide_extension_investments ext'
                (get_file_extension_from_content_type_investments
                   (case header' of None \<Rightarrow> [] | Some v \<Rightarrow> v))
           \<and> snd (download_file_investments w url base fs)
               = fs(name \<mapsto> concat (chunk' # later'))))"
proof (intro conjI impI)
  assume "\<not> print_ok w (''Downloading from: '' @ url) \<or> http w url = Refused reason
      \<or> http w url = Response status error_text header chunks ending
          \<and> (400 \<le> status \<and> status < 600 \<or> ending = Broken reason \<or> chunks = [])"
  then have "snd (try_download_investments w url base fs) = fs
      \<and> (\<exists>e. fst (try_download_investments w url base fs) = Inl e)"
    by (auto simp: try_download_investments_cases detect_investments_not_raised
        split: list.splits sum.splits stream_end.splits)
  then show "snd (download_file_investments w url base fs) = fs"
    and "fst (download_file_investments w url base fs) \<noteq> Inr (True, Some name)"
    by (auto simp: download_file_investments_def handle_exception_cases
        split: prod.splits if_splits)
next
  assume a: "print_ok w (''Downloading from: '' @ url)
        \<and> http w url = Response status error_text header (chunk # later) Exhausted
        \<and> \<not> (400 \<le> status \<and> status < 600)
        \<and> detect_file_type_from_content_investments chunk = Inr ext
        \<and> target = base @ decide_extension_investments ext
             (get_file_extension_from_content_type_investments
                (case header of None \<Rightarrow> [] | Some v \<Rightarrow> v))"
  {
    assume "open_error w target = Some message"
    with a show "snd (download_file_investments w url base fs) = fs"
      and "fst (download_file_investments w url base fs) \<noteq> Inr (True, Some name)"
      by (auto simp: download_file_investments_def try_download_investments_cases
          finish_download_cases handle_os_error)
  }
  {
    assume "open_error w target = None \<and> disk_space w < length (concat (chunk # later))"
    with a show "snd (download_file_investments w url base fs)
             = fs(target \<mapsto> take (disk_space w) (concat (chunk # later)))"
      and "fst (download_file_investments w url base fs) = Inr (False, None)"
      by (auto simp: download_file_investments_def try_download_investments_cases
          finish_download_cases handle_builtin_error)
  }
  {
    assume "open_error w target = None \<and> length (concat (chunk # later)) \<le> disk_space w"
    with a show "snd (download_file_investments w url base fs)
             = fs(target \<mapsto> concat (chunk # later))"
      by (auto simp: download_file_investments_def try_download_investments_cases
          finish_download_cases)
  }
next
  assume s: "fst (download_file_investments w url base fs) = Inr (True, Some name)"
  then obtain status' error_text' header' chunk' later' ext' where
    h: "print_ok w (''Downloading from: '' @ url)"
      "http w url = Response status' error_text' header' (chunk' # later') Exhausted"
      "\<not> (400 \<le> status' \<and> status' < 600)"
      "detect_file_type_from_content_investments chunk' = Inr ext'"
      "name = base @ decide_extension_investments ext'
         (get_file_extension_from_content_type_investments
            (case header' of None \<Rightarrow> [] | Some v \<Rightarrow> v))"
      "open_error w name = None"
      "length (concat (chunk' # later')) \<le> disk_space w"
    unfolding download_file_investments_success by blast
  then have "snd (download_file_investments w url base fs) = fs(name \<mapsto> concat (chunk' # later'))"
    by (auto simp: download_file_investments_def try_download_investments_cases
        finish_download_cases)
  with h show "\<exists>status' error_text' header' chunk' later' ext'.
           http w url = Response status' error_text' header' (chunk' # later') Exhausted
           \<and> detect_file_type_from_content_investments chunk' = Inr ext'
           \<and> name = base @ decide_extension_investments ext'
                (get_file_extension_from_content_type_investments
                   (case header' of None \<Rightarrow> [] | Some v \<Rightarrow> v))
           \<and> snd (download_file_investments w url base fs)
               = fs(name \<mapsto> concat (chunk' # later'))"
    by blast
qed

lemma filesystem_after_controls:
  "(\<not> print_ok w (''Downloading from: '' @ url) \<or> http w url = Refused reason
      \<or> http w url = Response status error_text header chunks ending
          \<and> (400 \<le> status \<and> status < 600 \<or> ending = Broken reason \<or> chunks = []) \<longrightarrow>
      snd (download_file_controls w url base fs) = fs
      \<and> fst (download_file_controls w url base fs) \<noteq> Inr (True, Some name))
   \<and> (print_ok w (''Downloading from: '' @ url)
        \<and> http w url = Response status error_text header (chunk # later) Exhausted
        \<and> \<not> (400 \<le> status \<and> status < 600)
        \<and> target = base @ detect_file_type_from_content_controls chunk \<longrightarrow>
        (open_error w target = Some message \<longrightarrow>
           snd (download_file_controls w url base fs) = fs
           \<and> fst (download_file_controls w url base fs) \<noteq> Inr (True, Some name))
        \<and> (open_error w target = None \<and> disk_space w < length (concat (chunk # later)) \<longrightarrow>
           snd (download_file_controls w url base fs)
             = fs(target \<mapsto> take (disk_space w) (concat (chunk # later)))
           \<and> fst (download_file_controls w url base fs) = Inr (False, None))
        \<and> (open_error w target = None \<and> length (concat (chunk # later)) \<le> disk_space w \<longrightarrow>
           snd (download_file_controls w url base fs)
             = fs(target \<mapsto> concat (chunk # later))))
   \<and> (fst (download_file_controls w url base fs) = Inr (True, Some name) \<longrightarrow>
        (\<exists>status' error_text' header' chunk' later'.
           http w url = Response status' error_text' header' (chunk' # later') Exhausted
           \<and> name = base @ detect_file_type_from_content_controls chunk'
           \<and> snd (download_file_controls w url base fs)
               = fs(name \<mapsto> concat (chunk' # later'))))"
proof (intro conjI impI)
  assume "\<not> print_ok w (''Downloading from: '' @ url) \<or> http w url = Refused reason
      \<or> http w url = Response status error_text header chunks ending
          \<and> (400 \<le> status \<and> status < 600 \<or> ending = Broken reason \<or> chunks = [])"
  then have "snd (try_download_controls w url base fs) = fs
      \<and> (\<exists>e. fst (try_download_controls w url base fs) = Inl e)"
    by (auto simp: try_download_controls_cases decide_controls_is_content
        split: list.splits sum.splits stream_end.splits)
  then show "snd (download_file_controls w url base fs) = fs"
    and "fst (download_file_controls w url base fs) \<noteq> Inr (True, Some name)"
    by (auto simp: download_file_controls_def handle_exception_cases
        split: prod.splits if_splits)
next
  assume a: "print_ok w (''Downloading from: '' @ url)
        \<and> http w url = Response status error_text header (chunk # later) Exhausted
        \<and> \<not> (400 \<le> status \<and> status < 600)
        \<and> target = base @ detect_file_type_from_content_controls chunk"
  {
    assume "open_error w target = Some message"
    with a show "snd (download_file_controls w url base fs) = fs"
      and "fst (download_file_controls w url base fs) \<noteq> Inr (True, Some name)"
      by (auto simp: download_file_controls_def try_download_controls_cases
          finish_download_cases handle_os_error decide_controls_is_content)
  }
  {
    assume "open_error w target = None \<and> disk_space w < length (concat (chunk # later))"
    with a show "snd (download_file_controls w url base fs)
             = fs(target \<mapsto> take (disk_space w) (concat (chunk # later)))"
      and "fst (download_file_controls w url base fs) = Inr (False, None)"
      by (auto simp: download_file_controls_def try_download_controls_cases
          finish_download_cases handle_builtin_error decide_controls_is_content)
  }
  {
    assume "open_error w target = None \<and> length (concat (chunk # later)) \<le> disk_space w"
    with a show "snd (download_file_controls w url base fs)
             = fs(target \<mapsto> concat (chunk # later))"
      by (auto simp: download_file_controls_def try_download_controls_cases
          finish_download_cases decide_controls_is_content)
  }
next
  assume s: "fst (download_file_controls w url base fs) = Inr (True, Some name)"
  then obtain status' error_text' header' chunk' later' where
    h: "print_ok w (''Downloading from: '' @ url)"
      "http w url = Response status' error_text' header' (chunk' # later') Exhausted"
      "\<not> (400 \<le> status' \<and> status' < 600)"
      "name = base @ detect_file_type_from_content_controls chunk'"
      "open_error w name = None"
      "length (concat (chunk' # later')) \<le> disk_space w"
    unfolding download_file_controls_success by blast
  then have "snd (download_file_controls w url base fs) = fs(name \<mapsto> concat (chunk' # later'))"
    by (auto simp: download_file_controls_def try_download_controls_cases
        finish_download_cases decide_controls_is_content)
  with h show "\<exists>status' error_text' header' chunk' later'.
           http w url = Response status' error_text' header' (chunk' # later') Exhausted
           \<and> name = base @ detect_file_type_from_content_controls chunk'
           \<and> snd (download_file_controls w url base fs)
               = fs(name \<mapsto> concat (chunk' # later'))"
    by blast
qed

text \<open>
  Claim C3, amended. The target file, \<open>base_filename\<close> followed by the resolved
  extension, is opened only after the full body has been buffered. A call that fails
  before that (first \<^verbatim>\<open>print\<close>, transport, status 400 to 599, broken transfer, empty body)
  or on opening the target leaves the filesystem as it was and does not return success.
  When the target is opened and the disk takes fewer bytes than the body has, the call
  returns \<^verbatim>\<open>(False, None)\<close> and the target holds the bytes written so far. When every
  write goes through, the target holds the whole body. A call returns success only in
  that last case, with the target as its filename.
\<close>

theorem filesystem_after_download:
  "((\<not> print_ok w (''Downloading from: '' @ url) \<or> http w url = Refused reason
         \<or> http w url = Response status error_text header chunks ending
             \<and> (400 \<le> status \<and> status < 600 \<or> ending = Broken reason \<or> chunks = []) \<longrightarrow>
         snd (download_file_investments w url base_filename fs) = fs
         \<and> fst (download_file_investments w url base_filename fs) \<noteq> Inr (True, Some final_filename))
      \<and> (print_ok w (''Downloading from: '' @ url)
           \<and> http w url = Response status error_text header (chunk # later) Exhausted
           \<and> \<not> (400 \<le> status \<and> status < 600)
           \<and> detect_file_type_from_content_investments chunk = Inr ext
           \<and> target = base_filename @ decide_extension_investments ext
                (get_file_extension_from_content_type_investments
                   (case header of None \<Rightarrow> [] | Some v \<Rightarrow> v)) \<longrightarrow>
           (open_error w target = Some message \<longrightarrow>
              snd (download_file_investments w url base_filename fs) = fs
              \<and> fst (download_file_investments w url base_filename fs) \<noteq> Inr (True, Some final_filename))
           \<and> (open_error w target = None \<and> disk_space w < length (concat (chunk # later)) \<longrightarrow>
              snd (download_file_investments w url base_filename fs)
                = fs(target \<mapsto> take (disk_space w) (concat (chunk # later)))
              \<and> fst (download_file_investments w url base_filename fs) = Inr (False, None))
           \<and> (open_error w target = None \<and> length (concat (chunk # later)) \<le> disk_space w \<longrightarrow>
              snd (download_file_investments w url base_filename fs)
                = fs(target \<mapsto> concat (chunk # later))))
      \<and> (fst (download_file_investments w url base_filename fs) = Inr (True, Some final_filename) \<longrightarrow>
           (\<exists>status' error_text' header' chunk' later' ext'.
              http w url = Response status' error_text' header' (chunk' # later') Exhausted
              \<and> detect_file_type_from_content_investments chunk' = Inr ext'
              \<and> final_filename = base_filename @ decide_extension_investments ext'
                   (get_file_extension_from_content_type_investments
                      (case header' of None \<Rightarrow> [] | Some v \<Rightarrow> v))
              \<and> snd (download_file_investments w url base_filename fs)
                  = fs(final_filename \<mapsto> concat (chunk' # later')))))
   \<and>
   ((\<not> print_ok w (''Downloading from: '' @ url) \<or> http w url = Refused reason
         \<or> http w url = Response status error_text header chunks ending
             \<and> (400 \<le> status \<and> status < 600 \<or> ending = Broken reason \<or> chunks = []) \<longrightarrow>
         snd (download_file_controls w url base_filename fs) = fs
         \<and> fst (download_file_controls w url base_filename fs) \<noteq> Inr (True, Some final_filename))
      \<and> (print_ok w (''Downloading from: '' @ url)
           \<and> http w url = Response status error_text header (chunk # later) Exhausted
           \<and> \<not> (400 \<le> status \<and> status < 600)
           \<and> target = base_filename @ detect_file_type_from_content_controls chunk \<longrightarrow>
           (open_error w target = Some message \<longrightarrow>
              snd (download_file_controls w url base_filename fs) = fs
              \<and> fst (download_file_controls w url base_filename fs) \<noteq> Inr (True, Some final_filename))
           \<and> (open_error w target = None \<and> disk_space w < length (concat (chunk # later)) \<longrightarrow>
              snd (download_file_controls w url base_filename fs)
                = fs(target \<mapsto> take (disk_space w) (concat (chunk # later)))
              \<and> fst (download_file_controls w url base_filename fs) = Inr (False, None))
           \<and> (open_error w target = None \<and> length (concat (chunk # later)) \<le> disk_space w \<longrightarrow>
              snd (download_file_controls w url base_filename fs)
                = fs(target \<mapsto> concat (chunk # later))))
      \<and> (fst (download_file_controls w url base_filename fs) = Inr (True, Some final_filename) \<longrightarrow>
           (\<exists>status' error_text' header' chunk' later'.
              http w url = Response status' error_text' header' (chunk' # later') Exhausted
              \<and> final_filename = base_filename @ detect_file_type_from_content_controls chunk'
              \<and> snd (download_file_controls w url base_filename fs)
                  = fs(final_filename \<mapsto> concat (chunk' # later')))))"
  by (rule conjI) (rule filesystem_after_investments, rule filesystem_after_controls)

theorem filesystem_after_download_witness:
  "snd (download_file_investments (serving (Refused ''timed out'') 100) ''u'' ''data'' Map.empty)
     = Map.empty
   \<and> fst (download_file_controls
            (serving (Response 200 [] None [ascii ''ab'', ascii ''cd''] Exhausted) 3)
            ''u'' ''data'' Map.empty) = Inr (False, None)
   \<and> snd (download_file_controls
            (serving (Response 200 [] None [ascii ''ab'', ascii ''cd''] Exhausted) 3)
            ''u'' ''data'' Map.empty) = [''data.xlsx'' \<mapsto> ascii ''abc'']
   \<and> fst (download_file_controls
            (serving (Response 200 [] None [ascii ''ab'', ascii ''cd''] Exhausted) 100)
            ''u'' ''data'' Map.empty) = Inr (True, Some ''data.xlsx'')
   \<and> snd (download_file_controls
            (serving (Response 200 [] None [ascii ''ab'', ascii ''cd''] Exhausted) 100)
            ''u'' ''data'' Map.empty) = [''data.xlsx'' \<mapsto> ascii ''abcd'']"
proof -
  note t = filesystem_after_download [where url = "''u''" and base_filename = "''data''"
      and fs = Map.empty]
  have d: "detect_file_type_from_content_controls (ascii ''ab'') = ''.xlsx''"
    by (simp add: detect_file_type_from_content_controls_def magic_numbers_controls_items ascii_def)
  have c: "concat (ascii ''ab'' # [ascii ''cd'']) = ascii ''abcd''"
    "take 3 (ascii ''abcd'') = ascii ''abc''"
    by (simp_all add: ascii_def)
  have h1: "http (serving (Refused ''timed out'') 100) ''u'' = Refused ''timed out''"
    by (rule serving_world)
  from t [where w = "serving (Refused ''timed out'') 100" and reason = "''timed out''"] h1
  have r1: "snd (download_file_investments (serving (Refused ''timed out'') 100) ''u'' ''data''
              Map.empty) = Map.empty"
    by blast
  have h2: "print_ok (serving (Response 200 [] None [ascii ''ab'', ascii ''cd''] Exhausted) 3)
              (''Downloading from: '' @ ''u'')
      \<and> http (serving (Response 200 [] None [ascii ''ab'', ascii ''cd''] Exhausted) 3) ''u''
          = Response 200 [] None (ascii ''ab'' # [ascii ''cd'']) Exhausted
      \<and> \<not> (400 \<le> (200::nat) \<and> (200::nat) < 600)
      \<and> ''data.xlsx'' = ''data'' @ detect_file_type_from_content_controls (ascii ''ab'')"
    by (simp add: serving_world d)
  have h2': "open_error (serving (Response 200 [] None [ascii ''ab'', ascii ''cd''] Exhausted) 3)
               ''data.xlsx'' = None
      \<and> disk_space (serving (Response 200 [] None [ascii ''ab'', ascii ''cd''] Exhausted) 3)
          < length (concat (ascii ''ab'' # [ascii ''cd'']))"
    by (simp add: serving_world ascii_def)
  from t [where w = "serving (Response 200 [] None [ascii ''ab'', ascii ''cd''] Exhausted) 3"
      and status = 200 and error_text = "[]" and header = None and chunk = "ascii ''ab''"
      and later = "[ascii ''cd'']" and target = "''data.xlsx''"] h2 h2'
  have r2: "snd (download_file_controls
              (serving (Response 200 [] None [ascii ''ab'', ascii ''cd''] Exhausted) 3)
              ''u'' ''data'' Map.empty)
            = [''data.xlsx'' \<mapsto>
                 take (disk_space (serving (Response 200 [] None [ascii ''ab'', ascii ''cd'']
                                      Exhausted) 3))
                   (concat (ascii ''ab'' # [ascii ''cd'']))]
      \<and> fst (download_file_controls
              (serving (Response 200 [] None [ascii ''ab'', ascii ''cd''] Exhausted) 3)
              ''u'' ''data'' Map.empty) = Inr (False, None)"
    by blast
  then have r2': "snd (download_file_controls
              (serving (Response 200 [] None [ascii ''ab'', ascii ''cd''] Exhausted) 3)
              ''u'' ''data'' Map.empty) = [''data.xlsx'' \<mapsto> ascii ''abc'']"
    by (simp only: serving_world c)
  have len: "length (concat (ascii ''ab'' # [ascii ''cd''])) \<le> 100"
    by (simp add: ascii_def)
  have ok: "fst (download_file_controls
                   (serving (Response 200 [] None [ascii ''ab'', ascii ''cd''] Exhausted) 100)
                   ''u'' ''data'' Map.empty) = Inr (True, Some ''data.xlsx'')"
    using download_file_controls_saved
      [of "serving (Response 200 [] None [ascii ''ab'', ascii ''cd''] Exhausted) 100" "''u''"
        200 "[]" None "ascii ''ab''" "[ascii ''cd'']" "[]" "''data.xlsx''" "''data''" Map.empty]
      len
    by (simp add: serving_world d)
  note success = t [where w = "serving (Response 200 [] None [ascii ''ab'', ascii ''cd''] Exhausted) 100"
      and final_filename = "''data.xlsx''", THEN conjunct2, THEN conjunct2, THEN conjunct2,
      THEN mp, OF ok]
  from success obtain status' error_text' header' chunk' later' where
    "http (serving (Response 200 [] None [ascii ''ab'', ascii ''cd''] Exhausted) 100) ''u''
       = Response status' error_text' header' (chunk' # later') Exhausted"
    and s3: "snd (download_file_controls
                   (serving (Response 200 [] None [ascii ''ab'', ascii ''cd''] Exhausted) 100)
                   ''u'' ''data'' Map.empty) = [''data.xlsx'' \<mapsto> concat (chunk' # later')]"
    by blast
  then have "chunk' # later' = ascii ''ab'' # [ascii ''cd'']"
    by (simp only: serving_world http_exchange.inject)
  with s3 have r3: "snd (download_file_controls
            (serving (Response 200 [] None [ascii ''ab'', ascii ''cd''] Exhausted) 100)
            ''u'' ''data'' Map.empty) = [''data.xlsx'' \<mapsto> ascii ''abcd'']"
    by (simp only: c)
  from r1 r2 r2' ok r3 show ?thesis
    by blast
qed

section \<open>The filename sanitizer on long names\<close>

text \<open>
  What the sanitizer does achieve for every input: at most 200 characters, none of the
  characters of \<^verbatim>\<open>invalid_chars\<close> left, and no dot or space in front.
\<close>

lemma set_strip_chars: "set (strip_chars P s) \<subseteq> set s"
proof
  fix x assume "x \<in> set (strip_chars P s)"
  then have "x \<in> set (dropWhile P (rev (dropWhile P s)))"
    by (simp add: strip_chars_def)
  then have "x \<in> set (rev (dropWhile P s))"
    by (rule set_dropWhileD)
  then have "x \<in> set (dropWhile P s)"
    by simp
  then show "x \<in> set s"
    by (rule set_dropWhileD)
qed

lemma strip_chars_hd: "strip_chars P s \<noteq> [] \<Longrightarrow> \<not> P (hd (strip_chars P s))"
proof -
  assume ne: "strip_chars P s \<noteq> []"
  have "dropWhile P s \<noteq> []"
  proof
    assume e: "dropWhile P s = []"
    have "strip_chars P s = []"
      unfolding strip_chars_def e by simp
    with ne show False by contradiction
  qed
  then obtain y ys where d: "dropWhile P s = y # ys"
    by (cases "dropWhile P s") auto
  have ny: "\<not> P y"
    using hd_dropWhile [of P s] d by simp
  then have "dropWhile P (rev ys @ [y]) = dropWhile P (rev ys) @ [y]"
    by (simp add: dropWhile_append)
  with d have "strip_chars P s = y # rev (dropWhile P (rev ys))"
    by (simp add: strip_chars_def)
  with ny show ?thesis by simp
qed

lemma replace_char_absent:
  "c \<noteq> new \<Longrightarrow> c = old \<or> c \<notin> set s \<Longrightarrow> c \<notin> set (replace_char old new s)"
  by (auto simp: replace_char_def)

lemma foldl_replace_char_absent:
  "\<forall>c\<in>set cs. c \<noteq> new \<Longrightarrow>
     \<forall>c\<in>set cs. c \<notin> set (foldl (\<lambda>name char. replace_char char new name) s cs)"
proof (induction cs rule: rev_induct)
  case Nil
  then show ?case by simp
next
  case (snoc x xs)
  show ?case
  proof
    fix c assume c: "c \<in> set (xs @ [x])"
    with snoc.prems have n: "c \<noteq> new" by blast
    from c snoc have "c = x \<or> c \<notin> set (foldl (\<lambda>name char. replace_char char new name) s xs)"
      by auto
    with n show "c \<notin> set (foldl (\<lambda>name char. replace_char char new name) s (xs @ [x]))"
      by (simp add: replace_char_absent)
  qed
qed

lemma sanitize_filename_kept_properties:
  "length (sanitize_filename s) \<le> 200
   \<and> set (sanitize_filename s) \<inter> set invalid_chars = {}
   \<and> (sanitize_filename s = []
       \<or> hd (sanitize_filename s) \<noteq> CHR ''.'' \<and> hd (sanitize_filename s) \<noteq> CHR '' '')"
proof -
  define f1 where "f1 = foldl (\<lambda>name char. replace_char char (CHR ''_'') name) s invalid_chars"
  define f2 where "f2 = strip_chars (\<lambda>c. c \<in> set ''. '') f1"
  have san: "sanitize_filename s = (if length f2 > 200 then take 200 f2 else f2)"
    by (simp add: sanitize_filename_def f1_def f2_def Let_def)
  have "\<forall>c\<in>set invalid_chars. c \<noteq> CHR ''_''"
    by (simp add: invalid_chars_def)
  then have "\<forall>c\<in>set invalid_chars. c \<notin> set f1"
    unfolding f1_def by (rule foldl_replace_char_absent)
  moreover have "set f2 \<subseteq> set f1"
    unfolding f2_def by (rule set_strip_chars)
  moreover have "set (sanitize_filename s) \<subseteq> set f2"
    using set_take_subset [of 200 f2] by (simp add: san)
  ultimately have a: "set (sanitize_filename s) \<inter> set invalid_chars = {}"
    by blast
  have b: "length (sanitize_filename s) \<le> 200"
    by (simp add: san)
  have c: "hd (sanitize_filename s) \<noteq> CHR ''.'' \<and> hd (sanitize_filename s) \<noteq> CHR '' ''"
    if "sanitize_filename s \<noteq> []"
  proof -
    from that have ne: "f2 \<noteq> []"
      by (auto simp: san split: if_splits)
    then have "hd (sanitize_filename s) = hd f2"
      by (cases f2) (simp_all add: san)
    moreover from ne have "\<not> hd f2 \<in> set ''. ''"
      unfolding f2_def by (rule strip_chars_hd)
    ultimately show ?thesis by simp
  qed
  from a b c show ?thesis by blast
qed

text \<open>
  Claim C6 says that the sanitized name has no leading or trailing white space or dots.
  The sanitizer trims first and cuts to 200 characters afterwards, so a name of 199
  letters followed by \<open>.b\<close> comes back as 200 characters ending in a dot. It also
  strips only dots and spaces: a leading tab (code point 9) stays.
\<close>

theorem sanitize_filename_trailing_dot:
  "sanitize_filename (replicate 199 (CHR ''a'') @ ''.b'') = replicate 199 (CHR ''a'') @ ''.''
   \<and> length (sanitize_filename (replicate 199 (CHR ''a'') @ ''.b'')) = 200
   \<and> last (sanitize_filename (replicate 199 (CHR ''a'') @ ''.b'')) = CHR ''.''
   \<and> sanitize_filename [CHR 0x09, CHR ''a''] = [CHR 0x09, CHR ''a'']"
  by code_simp

end
